theory Spec2Isabelle
  imports Complex_Main "HOL-Library.Word" "HOL-Library.Sublist" "HOL-Library.AList"
begin

section \<open>Values of the host language\<close>

text \<open>
  The Baichuan client (\<^verbatim>\<open>src/baichuan/baichuan.ts\<close>) is written in TypeScript.
  A \<^verbatim>\<open>Buffer\<close> is a list of bytes. A JavaScript string is a sequence of UTF-16 code
  units: \<^verbatim>\<open>s.length\<close> counts code units, \<^verbatim>\<open>s.slice(0, n)\<close> keeps the first
  \<^verbatim>\<open>n\<close> code units, \<^verbatim>\<open>s.startsWith(t)\<close> and \<^verbatim>\<open>s.includes(t)\<close> compare code units.
\<close>

type_synonym byte = "8 word"
type_synonym buffer = "byte list"
type_synonym jsstring = "16 word list"

definition js :: "string \<Rightarrow> jsstring" where
  "js s = map (\<lambda>c. of_nat (of_char c)) s"

definition startsWith :: "jsstring \<Rightarrow> jsstring \<Rightarrow> bool" where
  "startsWith s t = prefix t s"

definition str_includes :: "jsstring \<Rightarrow> jsstring \<Rightarrow> bool" where
  "str_includes s t = sublist t s"

text \<open>
  \<^verbatim>\<open>Buffer.from(s, "utf8")\<close> and \<^verbatim>\<open>cipher.update(s, "utf8")\<close> encode a string as
  UTF-8: one byte for a code unit below 0x80, two below 0x800, four for a surrogate pair,
  three otherwise; a lone surrogate becomes U+FFFD (EF BF BD).
\<close>

definition utf8_pair :: "nat \<Rightarrow> nat \<Rightarrow> buffer" where
  "utf8_pair hi lo =
     (let cp = 0x10000 + (hi - 0xD800) * 1024 + (lo - 0xDC00)
      in [of_nat (0xF0 + cp div 262144), of_nat (0x80 + (cp div 4096) mod 64),
          of_nat (0x80 + (cp div 64) mod 64), of_nat (0x80 + cp mod 64)])"

definition utf8_unit :: "nat \<Rightarrow> buffer" where
  "utf8_unit c =
     (if c < 0x80 then [of_nat c]
      else if c < 0x800 then [of_nat (0xC0 + c div 64), of_nat (0x80 + c mod 64)]
      else if 0xD800 \<le> c \<and> c < 0xE000 then [0xEF, 0xBF, 0xBD]
      else [of_nat (0xE0 + c div 4096), of_nat (0x80 + (c div 64) mod 64),
            of_nat (0x80 + c mod 64)])"

fun utf8_encode :: "jsstring \<Rightarrow> buffer" where
  "utf8_encode [] = []"
| "utf8_encode [u] = utf8_unit (unat u)"
| "utf8_encode (u # l # rest) =
     (if 0xD800 \<le> unat u \<and> unat u < 0xDC00 \<and> 0xDC00 \<le> unat l \<and> unat l < 0xE000
      then utf8_pair (unat u) (unat l) @ utf8_encode rest
      else utf8_unit (unat u) @ utf8_encode (l # rest))"

text \<open>\<^verbatim>\<open>buf.toString("hex")\<close>: two lower-case hexadecimal digits for each byte.\<close>

definition hex_digit :: "nat \<Rightarrow> 16 word" where
  "hex_digit n = (if n < 10 then of_nat (48 + n) else of_nat (87 + n))"

definition toHex :: "buffer \<Rightarrow> jsstring" where
  "toHex b = concat (map (\<lambda>x. [hex_digit (unat x div 16), hex_digit (unat x mod 16)]) b)"

text \<open>A number inside a template string: its decimal digits.\<close>

function decimal :: "nat \<Rightarrow> jsstring" where
  "decimal n = (if n < 10 then [of_nat (48 + n)] else decimal (n div 10) @ [of_nat (48 + n mod 10)])"
  by pat_completeness auto
termination
  by (relation "measure (\<lambda>n. n)") auto

text \<open>\<^verbatim>\<open>buf.slice(a, b)\<close> clamps to the buffer; \<^verbatim>\<open>buf.readUInt32LE(o)\<close> throws a
  RangeError when four bytes are not there, \<^verbatim>\<open>buf.writeUInt32LE(v, 0)\<close> when the value
  does not fit 32 bits.\<close>

definition slice :: "'a list \<Rightarrow> nat \<Rightarrow> nat \<Rightarrow> 'a list" where
  "slice b a e = take (e - a) (drop a b)"

text \<open>
  A JavaScript number is an IEEE 754 double. The finite doubles are rational numbers, and
  an arithmetic operation gives the exact result rounded to the nearest double, a tie going
  to the double whose significand is even. For a number of the size of \<open>x\<close> the doubles
  are the multiples of \<open>2 powi exponent x\<close>: the significand has 53 bits, and the exponent
  of its last bit lies between -1074, where the subnormal numbers are, and 971. Overflow
  to infinity is left out: the numbers rounded here are times in seconds.
\<close>

definition round_even :: "rat \<Rightarrow> int" where
  "round_even x =
     (let f = \<lfloor>x\<rfloor>; r = x - of_int f
      in if r < 1 / 2 then f else if 1 / 2 < r then f + 1 else if even f then f else f + 1)"

definition exponent :: "rat \<Rightarrow> int" where
  "exponent x = Max (insert (- 1074) {e \<in> {- 1074..971}. 2 ^ 52 * 2 powi e \<le> \<bar>x\<bar>})"

definition double :: "rat \<Rightarrow> rat" where
  "double x = of_int (round_even (x / 2 powi exponent x)) * 2 powi exponent x"

section \<open>Errors\<close>

text \<open>
  The error classes the client imports from \<^verbatim>\<open>../exceptions\<close>, Node's RangeError, and
  any other thrown Error. An \<^verbatim>\<open>ApiError\<close> carries the device's status code
  (\<^verbatim>\<open>rspCode\<close>). Every error carries its message, which the retry policy and the
  login fallback search for a substring.
\<close>

datatype err_class =
    ApiError nat
  | CredentialsInvalidError
  | InvalidContentTypeError
  | InvalidParameterError
  | ReolinkConnectionError
  | ReolinkTimeoutError
  | UnexpectedDataError
  | RangeError
  | OtherError

datatype exn = Exn (cls: err_class) (message: jsstring)

text \<open>Modelled from the spec: \<^verbatim>\<open>exceptions.ts\<close> is not among the sources; by the error
  taxonomy every protocol error is a \<^verbatim>\<open>ReolinkError\<close>, the runtime's own errors are not.\<close>

definition isReolinkError :: "exn \<Rightarrow> bool" where
  "isReolinkError e = (cls e \<noteq> RangeError \<and> cls e \<noteq> OtherError)"

definition readUInt32LE :: "buffer \<Rightarrow> nat \<Rightarrow> exn + nat" where
  "readUInt32LE b off =
     (if off + 4 \<le> length b
      then Inr (unat (b ! off) + 256 * unat (b ! (off + 1)) + 65536 * unat (b ! (off + 2))
                + 16777216 * unat (b ! (off + 3)))
      else Inl (Exn RangeError (js ''The value of offset is out of range'')))"

definition le32 :: "nat \<Rightarrow> buffer" where
  "le32 v = [of_nat (v mod 256), of_nat (v div 256 mod 256), of_nat (v div 65536 mod 256),
            of_nat (v div 16777216 mod 256)]"

definition writeUInt32LE :: "nat \<Rightarrow> exn + buffer" where
  "writeUInt32LE v =
     (if v < 2 ^ 32 then Inr (le32 v)
      else Inl (Exn RangeError (js ''The value of value is out of range'')))"

section \<open>Primitives taken as parameters\<close>

text \<open>
  The cipher helpers and the XML builders live in \<^verbatim>\<open>./util\<close> and \<^verbatim>\<open>./xmls\<close>, AES and
  UTF-8 decoding in the Node runtime, the XML parser in a library: none of them is among
  the sources, so the client is modelled over a record of them. What the parser returns
  is read only through the leaves the client extracts.

  The parser is made with \<^verbatim>\<open>parseTagValue: true\<close> and \<^verbatim>\<open>trimValues: true\<close> (lines 128 to
  134): the text of a tag is trimmed and, when it reads as a number, converted to a
  number. So what the client finds at a path of the parsed document is a string, a number,
  or something else: an object for a tag with attributes or children, whose own text is
  under \<^verbatim>\<open>_text\<close>, or an array for a repeated tag. A value is modelled as a string, as a
  natural number below \<open>2 ^ 53\<close> (which a double holds exactly and a template string
  prints in decimal digits), or as another value, given by its truthiness and by how a
  template string prints it.
\<close>

datatype js_value = JString jsstring | JNumber nat | JOther bool jsstring

definition truthy :: "js_value \<Rightarrow> bool" where
  "truthy v = (case v of JString t \<Rightarrow> t \<noteq> [] | JNumber n \<Rightarrow> n \<noteq> 0 | JOther b r \<Rightarrow> b)"

definition render :: "js_value \<Rightarrow> jsstring" where
  "render v = (case v of JString t \<Rightarrow> t | JNumber n \<Rightarrow> decimal n | JOther b r \<Rightarrow> r)"

text \<open>\<^verbatim>\<open>a || b || c || d || null\<close>: the first operand that is there and truthy.\<close>

fun first_truthy :: "js_value option list \<Rightarrow> js_value option" where
  "first_truthy [] = None"
| "first_truthy (None # vs) = first_truthy vs"
| "first_truthy (Some v # vs) = (if truthy v then Some v else first_truthy vs)"

text \<open>A tag of the parsed document: a tag with nothing but text, given by its trimmed
  text; a tag with attributes or children, given by its own text if it has one; a
  repeated tag, given by how a template string prints the array.\<close>

datatype xml_node = Leaf jsstring | Element "jsstring option" | Repeated jsstring

definition is_digits :: "jsstring \<Rightarrow> bool" where
  "is_digits t = (t \<noteq> [] \<and> list_all (\<lambda>u. 48 \<le> unat u \<and> unat u \<le> 57) t)"

definition digits_value :: "jsstring \<Rightarrow> nat" where
  "digits_value t = foldl (\<lambda>n u. 10 * n + (unat u - 48)) 0 t"

datatype EncType = BC | AES

record alarm_event =
  ev_channelId :: "nat option"
  ev_channel :: "nat option"
  ev_status :: "jsstring option"
  ev_AItype :: "jsstring option"

record device_info =
  di_type :: "jsstring option"
  di_typeInfo :: "jsstring option"
  di_sleep :: "bool option"
  di_channelNum :: nat

record prims =
  decryptBaichuan :: "buffer \<Rightarrow> nat \<Rightarrow> exn + jsstring"
  encryptBaichuan :: "jsstring \<Rightarrow> nat \<Rightarrow> buffer"
  md5StrModern :: "jsstring \<Rightarrow> jsstring"
  aes_cfb_encrypt :: "buffer \<Rightarrow> buffer \<Rightarrow> buffer"
  aes_cfb_decrypt :: "buffer \<Rightarrow> buffer \<Rightarrow> buffer"
  toString_utf8 :: "buffer \<Rightarrow> jsstring"
  buildChannelExtensionXml :: "nat \<Rightarrow> jsstring"
  buildLoginXml :: "jsstring \<Rightarrow> jsstring \<Rightarrow> jsstring"
  buildLogoutXml :: "jsstring \<Rightarrow> jsstring \<Rightarrow> jsstring"
  parse_nonce :: "jsstring \<Rightarrow> jsstring + xml_node option \<times> xml_node option"
  other_tag_value :: "jsstring \<Rightarrow> js_value"
  parse_DeviceInfo :: "jsstring \<Rightarrow> jsstring + device_info option"
  parse_events :: "jsstring \<Rightarrow> exn + alarm_event list"

text \<open>
  \<open>parse_nonce\<close> is \<^verbatim>\<open>xmlParser.parse\<close> on the answer to the nonce request: the message
  of the error the parser throws, or the tags of the document at \<^verbatim>\<open>body.Encryption.nonce\<close>
  and at \<^verbatim>\<open>body.nonce\<close>. \<open>parse_DeviceInfo\<close> is the same for the answer to the login
  command and the tag \<^verbatim>\<open>body.DeviceInfo\<close>.

  The value of a text: the empty text is the empty string; a text of decimal digits whose
  value is below \<open>2 ^ 53\<close> is that number, whether or not it begins with zeros (the
  parser's default is to allow leading zeros); the value of any other text is left to the
  primitive \<open>other_tag_value\<close>.
\<close>

definition tag_value :: "prims \<Rightarrow> jsstring \<Rightarrow> js_value" where
  "tag_value P t =
     (if t = [] then JString []
      else if is_digits t \<and> digits_value t < 2 ^ 53 then JNumber (digits_value t)
      else other_tag_value P t)"

text \<open>\<^verbatim>\<open>node?._text\<close> and \<^verbatim>\<open>node\<close> for a tag that may be missing.\<close>

definition node_text :: "prims \<Rightarrow> xml_node option \<Rightarrow> js_value option" where
  "node_text P n = (case n of Some (Element (Some t)) \<Rightarrow> Some (tag_value P t) | _ \<Rightarrow> None)"

definition node_value :: "prims \<Rightarrow> xml_node option \<Rightarrow> js_value option" where
  "node_value P n =
     (case n of
        None \<Rightarrow> None
      | Some (Leaf t) \<Rightarrow> Some (tag_value P t)
      | Some (Element txt) \<Rightarrow> Some (JOther True (js ''[object Object]''))
      | Some (Repeated r) \<Rightarrow> Some (JOther True r))"

section \<open>The client's state\<close>

text \<open>
  The fields of the \<^verbatim>\<open>Baichuan\<close> object that the modelled methods read or write, the
  fields of the \<^verbatim>\<open>Host\<close> object (\<^verbatim>\<open>httpApi\<close>) that the push handler and the login
  write into, and what the runtime holds for the client: the interval timers that are
  running, the clock, the record of what the client did to the outside (socket writes,
  closes, sleeps, debug output, callback invocations), and a script of what the network
  will answer.
\<close>

datatype socket = Socket (destroyed: bool)

text \<open>A registered callback takes no argument; it returns or throws.\<close>

datatype callback = Callback (cb_tag: nat) (cb_throws: "jsstring option")

type_synonym registry = "(nat option \<times> (nat option \<times> (jsstring \<times> callback) list) list) list"

datatype io =
    Connect
  | Write buffer
  | Close
  | Sleep nat
  | DebugLog jsstring
  | Invoke jsstring callback

text \<open>What reaches the client while it awaits: the socket closes, a frame is pushed,
  time passes.\<close>

datatype async_event = Closed | Push nat buffer nat | Elapsed nat

datatype conn_outcome = Connected | ConnectError jsstring | ConnectTimeout

record resp_outcome =
  before :: "async_event list"
  result :: "exn + buffer \<times> nat"

record baichuan =
  host :: jsstring
  username :: jsstring
  password :: jsstring
  nonce :: "js_value option"
  userHash :: "jsstring option"
  passwordHash :: "jsstring option"
  aesKey :: "buffer option"
  transport :: "socket option"
  protocol :: bool
  loggedIn :: bool
  subscribed :: bool
  eventsActive :: bool
  keepaliveTask :: "nat option"
  keepaliveInterval :: nat
  timeKeepaliveLoop :: rat
  timeConnectionLost :: rat
  extCallback :: registry
  devType :: jsstring
  privacyMode :: "nat \<rightharpoonup> bool"
  api_isNvr :: bool
  api_isHub :: bool
  api_numChannels :: nat
  api_channels :: "nat list"
  api_motionDetectionStates :: "nat \<rightharpoonup> bool"
  api_visitorStates :: "nat \<rightharpoonup> bool"
  api_aiDetectionStates :: "nat \<rightharpoonup> (jsstring \<times> bool) list"
  DEBUG_ENABLED :: bool
  timers :: "nat list"
  now :: int
  trace :: "io list"
  connects :: "conn_outcome list"
  responses :: "resp_outcome list"

text \<open>
  Of the debug output, the reports of caught errors are recorded. The progress messages
  are not; those of \<^verbatim>\<open>send\<close> and of the push callback pass their text through
  \<^verbatim>\<open>hidePassword\<close> (lines 498 to 513), which makes a regular expression of the password,
  of the nonce and of the two hashes. The password is taken to be a valid pattern, for
  which \<^verbatim>\<open>hidePassword\<close> returns.
\<close>

definition debugLog :: "jsstring \<Rightarrow> baichuan \<Rightarrow> baichuan" where
  "debugLog m s = (if DEBUG_ENABLED s then s\<lparr>trace := trace s @ [DebugLog m]\<rparr> else s)"

definition hostmsg :: "baichuan \<Rightarrow> jsstring \<Rightarrow> jsstring" where
  "hostmsg s m = js ''Baichuan host '' @ host s @ js '': '' @ m"

section \<open>Ciphers and the decode chain\<close>

definition aesEncrypt :: "prims \<Rightarrow> baichuan \<Rightarrow> jsstring \<Rightarrow> exn + buffer" where
  "aesEncrypt P s body =
     (if body = [] then Inr []
      else case aesKey s of
        None \<Rightarrow> Inl (Exn InvalidParameterError
                 (hostmsg s (js ''first login before using AES encryption'')))
      | Some k \<Rightarrow> Inr (aes_cfb_encrypt P k (utf8_encode body)))"

definition aesDecrypt :: "prims \<Rightarrow> baichuan \<Rightarrow> buffer \<Rightarrow> buffer \<Rightarrow> exn + jsstring" where
  "aesDecrypt P s data header =
     (case aesKey s of
        None \<Rightarrow> Inl (Exn InvalidParameterError
                 (hostmsg s (js ''first login before using AES decryption, header: '' @ toHex header)))
      | Some k \<Rightarrow> Inr (toString_utf8 P (aes_cfb_decrypt P k data)))"

definition XML_PROLOGUE :: jsstring where
  "XML_PROLOGUE = js ''<?xml''"

definition unknown_enc_error :: "baichuan \<Rightarrow> jsstring \<Rightarrow> buffer \<Rightarrow> exn" where
  "unknown_enc_error s recEncType data =
     Exn InvalidContentTypeError
       (hostmsg s (js ''received unknown encryption type '' @ [39] @ recEncType @ [39]
                   @ js '', data: '' @ toHex data))"

definition unable_error :: "baichuan \<Rightarrow> nat \<Rightarrow> buffer \<Rightarrow> jsstring \<Rightarrow> buffer \<Rightarrow> exn" where
  "unable_error s cmdId header recBody encBody =
     Exn UnexpectedDataError
       (hostmsg s (js ''unable to decrypt message with cmd_id '' @ decimal cmdId
          @ js '', header '' @ [39] @ toHex header @ [39]
          @ js '', decrypted data startswith '' @ [39] @ take 5 recBody @ [39]
          @ js '', encrypted data startswith '' @ [39] @ toHex (take 5 encBody) @ [39]
          @ js '' instead of '' @ [39] @ XML_PROLOGUE @ [39]))"

text \<open>Lines 439 to 475 of \<^verbatim>\<open>decrypt\<close>: the first decode, chosen by the header and by the
  encoding the caller sent with.\<close>

definition decrypt_first ::
  "prims \<Rightarrow> baichuan \<Rightarrow> buffer \<Rightarrow> nat \<Rightarrow> EncType \<Rightarrow> nat \<Rightarrow> jsstring \<Rightarrow> buffer \<Rightarrow> buffer
    \<Rightarrow> exn + jsstring" where
  "decrypt_first P s data lenHeader encType recEncOffset recEncType encBody header =
     (if (lenHeader = 20 \<and> (recEncType = js ''01dd'' \<or> recEncType = js ''12dd'')) \<or> encType = BC
      then decryptBaichuan P encBody recEncOffset
      else if (lenHeader = 20 \<and> (recEncType = js ''02dd'' \<or> recEncType = js ''03dd''))
              \<or> (lenHeader = 24 \<and> aesKey s \<noteq> None)
      then (case aesDecrypt P s encBody header of
              Inr recBody \<Rightarrow>
                if \<not> startsWith recBody XML_PROLOGUE
                then (case decryptBaichuan P encBody recEncOffset of
                        Inr b \<Rightarrow> Inr b
                      | Inl err \<Rightarrow> decryptBaichuan P encBody recEncOffset)
                else Inr recBody
            | Inl err \<Rightarrow> decryptBaichuan P encBody recEncOffset)
      else if recEncType = js ''00dd'' \<or> lenHeader = 24
      then (case decryptBaichuan P encBody recEncOffset of
              Inr recBody \<Rightarrow>
                if \<not> startsWith recBody XML_PROLOGUE then Inr (toString_utf8 P encBody)
                else Inr recBody
            | Inl err \<Rightarrow> Inr (toString_utf8 P encBody))
      else Inl (unknown_enc_error s recEncType data))"

text \<open>Lines 477 to 495: the final validation.\<close>

definition decrypt_validate ::
  "prims \<Rightarrow> baichuan \<Rightarrow> nat \<Rightarrow> nat \<Rightarrow> jsstring \<Rightarrow> buffer \<Rightarrow> buffer \<Rightarrow> jsstring
    \<Rightarrow> exn + jsstring" where
  "decrypt_validate P s cmdId recEncOffset recEncType encBody header recBody =
     (if \<not> startsWith recBody XML_PROLOGUE
      then
        (let recBody1 = (if recEncType = js ''00dd'' then toString_utf8 P encBody else recBody)
         in case (if \<not> startsWith recBody1 XML_PROLOGUE
                  then decryptBaichuan P encBody recEncOffset else Inr recBody1) of
              Inl err \<Rightarrow> Inl err
            | Inr recBody2 \<Rightarrow>
                if \<not> startsWith recBody2 XML_PROLOGUE
                then Inl (unable_error s cmdId header recBody2 encBody)
                else Inr recBody2)
      else Inr recBody)"

definition decrypt :: "prims \<Rightarrow> baichuan \<Rightarrow> buffer \<Rightarrow> nat \<Rightarrow> nat \<Rightarrow> EncType \<Rightarrow> exn + jsstring" where
  "decrypt P s data lenHeader cmdId encType =
     (case readUInt32LE data 12 of
        Inl err \<Rightarrow> Inl err
      | Inr recEncOffset \<Rightarrow>
          (let recEncType = toHex (slice data 16 18);
               encBody = drop lenHeader data;
               header = take lenHeader data
           in if encBody = [] then Inr []
              else case decrypt_first P s data lenHeader encType recEncOffset recEncType
                          encBody header of
                     Inl err \<Rightarrow> Inl err
                   | Inr recBody \<Rightarrow>
                       decrypt_validate P s cmdId recEncOffset recEncType encBody header
                         recBody))"

text \<open>The decode attempts, and the order in which \<^verbatim>\<open>decrypt\<close> makes them: the caller's
  encoding and the header pick one of three orders, or none for an encoding field the
  20-byte header does not know. An attempt that was made twice is listed once.\<close>

datatype attempt = Legacy | Aes | Plain

definition attempt_order :: "baichuan \<Rightarrow> jsstring \<Rightarrow> nat \<Rightarrow> EncType \<Rightarrow> attempt list option" where
  "attempt_order s recEncType lenHeader encType =
     (if (lenHeader = 20 \<and> (recEncType = js ''01dd'' \<or> recEncType = js ''12dd'')) \<or> encType = BC
      then Some (Legacy # (if recEncType = js ''00dd'' then [Plain] else []))
      else if (lenHeader = 20 \<and> (recEncType = js ''02dd'' \<or> recEncType = js ''03dd''))
              \<or> (lenHeader = 24 \<and> aesKey s \<noteq> None)
      then Some (Aes # Legacy # (if recEncType = js ''00dd'' then [Plain] else []))
      else if recEncType = js ''00dd'' \<or> lenHeader = 24 then Some [Legacy, Plain]
      else None)"

definition attempt_result ::
  "prims \<Rightarrow> baichuan \<Rightarrow> buffer \<Rightarrow> nat \<Rightarrow> buffer \<Rightarrow> attempt \<Rightarrow> exn + jsstring" where
  "attempt_result P s encBody off header a =
     (case a of
        Legacy \<Rightarrow> decryptBaichuan P encBody off
      | Aes \<Rightarrow> aesDecrypt P s encBody header
      | Plain \<Rightarrow> Inr (toString_utf8 P encBody))"

definition decoded ::
  "prims \<Rightarrow> baichuan \<Rightarrow> buffer \<Rightarrow> nat \<Rightarrow> buffer \<Rightarrow> attempt list \<Rightarrow> jsstring list" where
  "decoded P s encBody off header as =
     List.map_filter (\<lambda>a. case attempt_result P s encBody off header a of
                            Inl err \<Rightarrow> None | Inr b \<Rightarrow> Some b) as"

definition first_xml :: "jsstring list \<Rightarrow> jsstring option" where
  "first_xml bs = find (\<lambda>b. startsWith b XML_PROLOGUE) bs"

text \<open>The decode policy in the specification's words: the cipher the header declares (a
  20-byte header declares one without ambiguity), then AES when a key is there, then the
  legacy cipher, then plaintext, stopping at the first result with the prologue; a
  diagnostic error when there is none.\<close>

definition spec_decode_chain :: "prims \<Rightarrow> baichuan \<Rightarrow> buffer \<Rightarrow> nat \<Rightarrow> nat \<Rightarrow> exn + jsstring" where
  "spec_decode_chain P s data lenHeader cmdId =
     (case readUInt32LE data 12 of
        Inl err \<Rightarrow> Inl err
      | Inr off \<Rightarrow>
          (let t = toHex (slice data 16 18);
               e = drop lenHeader data;
               h = take lenHeader data;
               declared = (if lenHeader = 20 \<and> (t = js ''01dd'' \<or> t = js ''12dd'') then [Legacy]
                           else if lenHeader = 20 \<and> (t = js ''02dd'' \<or> t = js ''03dd'') then [Aes]
                           else []);
               tried = decoded P s e off h
                         (declared @ (if aesKey s \<noteq> None then [Aes] else []) @ [Legacy, Plain])
           in case first_xml tried of
                Some b \<Rightarrow> Inr b
              | None \<Rightarrow> Inl (unable_error s cmdId h (last tried) e)))"

section \<open>Callbacks and push dispatch\<close>

text \<open>
  \<^verbatim>\<open>extCallback\<close> is a \<^verbatim>\<open>Map\<close> of \<^verbatim>\<open>Map\<close>s of \<^verbatim>\<open>Map\<close>s; a \<^verbatim>\<open>Map\<close> iterates in
  insertion order and \<^verbatim>\<open>set\<close> on a key that is there keeps its place, which is what
  \<open>AList.update\<close> does on an association list. A command or channel key \<open>None\<close> is the
  source's \<^verbatim>\<open>null\<close>. Of the debug output only the reports of caught errors are modelled;
  progress messages are left out.
\<close>

definition registerCallback ::
  "jsstring \<Rightarrow> callback \<Rightarrow> nat option \<Rightarrow> nat option \<Rightarrow> baichuan \<Rightarrow> baichuan" where
  "registerCallback callbackId cb cmdId channel s =
     (let cmdCallbacks = (case map_of (extCallback s) cmdId of None \<Rightarrow> [] | Some m \<Rightarrow> m);
          channelCallbacks = (case map_of cmdCallbacks channel of None \<Rightarrow> [] | Some m \<Rightarrow> m)
      in s\<lparr>extCallback :=
             AList.update cmdId
               (AList.update channel (AList.update callbackId cb channelCallbacks) cmdCallbacks)
               (extCallback s)\<rparr>)"

definition unregisterCallback :: "jsstring \<Rightarrow> baichuan \<Rightarrow> baichuan" where
  "unregisterCallback callbackId s =
     s\<lparr>extCallback :=
         filter (\<lambda>(cmdId, cmdCallbacks). cmdCallbacks \<noteq> [])
           (map (\<lambda>(cmdId, cmdCallbacks).
                   (cmdId, filter (\<lambda>(channel, channelCallbacks). channelCallbacks \<noteq> [])
                             (map (\<lambda>(channel, channelCallbacks).
                                     (channel, AList.delete callbackId channelCallbacks))
                                cmdCallbacks)))
              (extCallback s))\<rparr>"

text \<open>Calling a callback: the call is recorded, and the error it throws, if any, is what
  the caller's \<^verbatim>\<open>catch\<close> receives.\<close>

definition invoke :: "jsstring \<Rightarrow> callback \<Rightarrow> baichuan \<Rightarrow> exn option \<times> baichuan" where
  "invoke callbackId cb s =
     ((case cb_throws cb of None \<Rightarrow> None | Some m \<Rightarrow> Some (Exn OtherError m)),
      s\<lparr>trace := trace s @ [Invoke callbackId cb]\<rparr>)"

definition callback_error_msg :: "baichuan \<Rightarrow> exn \<Rightarrow> jsstring" where
  "callback_error_msg s err = hostmsg s (js ''error executing callback: Error: '' @ message err)"

fun run_callbacks :: "(jsstring \<times> callback) list \<Rightarrow> baichuan \<Rightarrow> baichuan" where
  "run_callbacks [] s = s"
| "run_callbacks ((callbackId, cb) # rest) s =
     (case invoke callbackId cb s of
        (None, s1) \<Rightarrow> run_callbacks rest s1
      | (Some err, s1) \<Rightarrow> run_callbacks rest (debugLog (callback_error_msg s1 err) s1))"

definition executeCallbacks :: "nat option \<Rightarrow> nat option \<Rightarrow> baichuan \<Rightarrow> baichuan" where
  "executeCallbacks cmdId channel s =
     (case map_of (extCallback s) cmdId of
        None \<Rightarrow> s
      | Some cmdCallbacks \<Rightarrow>
          (case map_of cmdCallbacks channel of
             None \<Rightarrow> s
           | Some channelCallbacks \<Rightarrow> run_callbacks channelCallbacks s))"

text \<open>
  \<^verbatim>\<open>parseXml\<close>, for one candidate alarm event, from the read of its channel identifier
  on (lines 858 to 919). The parser call and the walk over its untyped result that
  yields the candidates (lines 837 to 857) are the parameter \<open>parse_events\<close>: it gives
  each candidate with the four fields the handler reads, the channel fields as the
  number \<^verbatim>\<open>Number(...)\<close> makes of them, the others as the string \<^verbatim>\<open>String(...)\<close> makes
  of them, and \<open>Inl\<close> when the parser throws.
\<close>

definition event_channel :: "alarm_event \<Rightarrow> nat option" where
  "event_channel ev = (case ev_channelId ev of Some c \<Rightarrow> Some c | None \<Rightarrow> ev_channel ev)"

definition mark_events_active :: "baichuan \<Rightarrow> baichuan" where
  "mark_events_active s =
     (if \<not> eventsActive s \<and> subscribed s then s\<lparr>eventsActive := True\<rparr> else s)"

definition update_status :: "nat \<Rightarrow> jsstring \<Rightarrow> baichuan \<Rightarrow> baichuan" where
  "update_status channel states s =
     s\<lparr>api_motionDetectionStates :=
         (api_motionDetectionStates s)(channel \<mapsto> str_includes states (js ''MD'')),
       api_visitorStates :=
         (api_visitorStates s)(channel \<mapsto> str_includes states (js ''visitor''))\<rparr>"

definition update_ai :: "nat \<Rightarrow> jsstring \<Rightarrow> baichuan \<Rightarrow> baichuan" where
  "update_ai channel aiTypes s =
     (let s1 = (case api_aiDetectionStates s channel of
                  None \<Rightarrow> s
                | Some aiStates \<Rightarrow>
                    s\<lparr>api_aiDetectionStates :=
                        (api_aiDetectionStates s)
                          (channel \<mapsto> map (\<lambda>(aiTypeKey, oldState).
                                               (aiTypeKey, str_includes aiTypes aiTypeKey))
                                          aiStates)\<rparr>);
          motionState = (case api_motionDetectionStates s1 channel of
                           None \<Rightarrow> False | Some m \<Rightarrow> m)
      in if \<not> motionState \<and> str_includes aiTypes (js ''other'')
         then s1\<lparr>api_motionDetectionStates := (api_motionDetectionStates s1)(channel \<mapsto> True)\<rparr>
         else s1)"

definition handle_event :: "nat \<Rightarrow> alarm_event \<Rightarrow> baichuan \<Rightarrow> baichuan" where
  "handle_event cmdId ev s =
     (case event_channel ev of
        None \<Rightarrow> s
      | Some channel \<Rightarrow>
          if channel \<notin> set (api_channels s) then s
          else if ev_status ev \<noteq> None \<or> ev_AItype ev \<noteq> None then
            (let s1 = mark_events_active s;
                 s2 = (case ev_status ev of
                         None \<Rightarrow> s1
                       | Some states \<Rightarrow> update_status channel states s1);
                 s3 = (case ev_AItype ev of
                         None \<Rightarrow> s2
                       | Some aiTypes \<Rightarrow> update_ai channel aiTypes s2)
             in executeCallbacks (Some cmdId) None
                  (executeCallbacks (Some cmdId) (Some channel) s3))
          else s)"

definition parseXml :: "prims \<Rightarrow> nat \<Rightarrow> jsstring \<Rightarrow> baichuan \<Rightarrow> baichuan" where
  "parseXml P cmdId xml s =
     (case parse_events P xml of
        Inl err \<Rightarrow>
          debugLog (hostmsg s (js ''error parsing XML for cmd_id '' @ decimal cmdId @ js '': ''
                               @ message err)) s
      | Inr events \<Rightarrow>
          if cmdId = 33 then foldl (\<lambda>s ev. handle_event cmdId ev s) s events else s)"

definition pushCallback :: "prims \<Rightarrow> nat \<Rightarrow> buffer \<Rightarrow> nat \<Rightarrow> baichuan \<Rightarrow> baichuan" where
  "pushCallback P cmdId data lenHeader s =
     (case decrypt P s data lenHeader cmdId AES of
        Inl err \<Rightarrow> if isReolinkError err then debugLog (message err) s else s
      | Inr recBody \<Rightarrow> if recBody = [] then s else parseXml P cmdId recBody s)"

text \<open>\<^verbatim>\<open>Date.now()\<close> is the clock, a whole number of milliseconds; the client keeps
  times in seconds, as the double \<^verbatim>\<open>Date.now() / 1000\<close>.\<close>

definition seconds :: "baichuan \<Rightarrow> rat" where
  "seconds s = double (of_int (now s) / 1000)"

definition closeCallback :: "baichuan \<Rightarrow> baichuan" where
  "closeCallback s =
     (let s1 = s\<lparr>loggedIn := False, eventsActive := False\<rparr>
      in if subscribed s1
         then (if \<not> eventsActive s then s1\<lparr>timeConnectionLost := seconds s1\<rparr>
               else s1\<lparr>timeConnectionLost := seconds s1\<rparr>)
         else s1)"

definition eventsActiveValue :: "baichuan \<Rightarrow> bool" where
  "eventsActiveValue s = (eventsActive s \<and> double (seconds s - timeConnectionLost s) > 120)"

text \<open>What one callback adds to the record, and the callbacks of one slot of the registry.\<close>

definition callback_io :: "baichuan \<Rightarrow> jsstring \<times> callback \<Rightarrow> io list" where
  "callback_io s p =
     Invoke (fst p) (snd p) #
       (case cb_throws (snd p) of
          None \<Rightarrow> []
        | Some m \<Rightarrow> if DEBUG_ENABLED s
                    then [DebugLog (callback_error_msg s (Exn OtherError m))] else [])"

definition slot :: "registry \<Rightarrow> nat option \<Rightarrow> nat option \<Rightarrow> (jsstring \<times> callback) list" where
  "slot reg cmdId channel =
     (case map_of reg cmdId of
        None \<Rightarrow> []
      | Some cmdCallbacks \<Rightarrow>
          (case map_of cmdCallbacks channel of None \<Rightarrow> [] | Some channelCallbacks \<Rightarrow> channelCallbacks))"

fun invoked_ids :: "io list \<Rightarrow> jsstring list" where
  "invoked_ids [] = []"
| "invoked_ids (Invoke callbackId cb # xs) = callbackId # invoked_ids xs"
| "invoked_ids (x # xs) = invoked_ids xs"

text \<open>The callback identifiers of every inner \<^verbatim>\<open>Map\<close> are distinct, as the keys of a
  \<^verbatim>\<open>Map\<close> are.\<close>

definition registry_wf :: "registry \<Rightarrow> bool" where
  "registry_wf reg =
     list_all (\<lambda>(cmdId, cmdCallbacks).
                 list_all (\<lambda>(channel, channelCallbacks). distinct (map fst channelCallbacks))
                   cmdCallbacks) reg"

section \<open>Sending a command\<close>

text \<open>
  The arguments of \<^verbatim>\<open>send\<close> with their defaults (\<^verbatim>\<open>RETRY_ATTEMPTS = 3\<close>). Modelled from
  the spec: \<^verbatim>\<open>EncType\<close> is declared in \<^verbatim>\<open>./util\<close>; it has the two encodings, legacy
  (\<open>BC\<close>) and AES, so the branch of \<^verbatim>\<open>send\<close> for any other encoding has no input.
\<close>

record send_args =
  arg_cmdId :: nat
  arg_channel :: "nat option"
  arg_body :: jsstring
  arg_extension :: jsstring
  arg_encType :: EncType
  arg_messageClass :: jsstring
  arg_messId :: "nat option"
  arg_retry :: int

definition RETRY_ATTEMPTS :: int where
  "RETRY_ATTEMPTS = 3"

definition send_defaults :: "nat \<Rightarrow> send_args" where
  "send_defaults c =
     \<lparr>arg_cmdId = c, arg_channel = None, arg_body = [], arg_extension = [], arg_encType = AES,
      arg_messageClass = js ''1464'', arg_messId = None, arg_retry = RETRY_ATTEMPTS\<rparr>"

text \<open>Lines 231 to 246: the sequence number and the extension.\<close>

definition resolve_messId :: "send_args \<Rightarrow> nat" where
  "resolve_messId a =
     (case arg_messId a of
        Some m \<Rightarrow> m
      | None \<Rightarrow> (case arg_channel a of None \<Rightarrow> 250 | Some c \<Rightarrow> c + 1))"

definition resolve_ext :: "prims \<Rightarrow> baichuan \<Rightarrow> send_args \<Rightarrow> exn + jsstring" where
  "resolve_ext P s a =
     (case arg_channel a of
        None \<Rightarrow> Inr (arg_extension a)
      | Some c \<Rightarrow>
          if arg_extension a \<noteq> []
          then Inl (Exn InvalidParameterError
                 (hostmsg s (js ''cannot specify both channel and extension'')))
          else Inr (buildChannelExtensionXml P c))"

text \<open>Lines 248 to 284: the header. \<^verbatim>\<open>messLen\<close> and \<^verbatim>\<open>payloadOffset\<close> are computed from
  \<^verbatim>\<open>ext.length\<close> and \<^verbatim>\<open>body.length\<close>, the lengths of the strings in code units.\<close>

definition build_header ::
  "baichuan \<Rightarrow> nat \<Rightarrow> nat \<Rightarrow> nat \<Rightarrow> nat \<Rightarrow> jsstring \<Rightarrow> exn + buffer" where
  "build_header s cmdId messLen messId payloadOffset messageClass =
     (case writeUInt32LE cmdId of
        Inl err \<Rightarrow> Inl err
      | Inr cmdIdBytes \<Rightarrow>
     (case writeUInt32LE messLen of
        Inl err \<Rightarrow> Inl err
      | Inr messLenBytes \<Rightarrow>
     (case writeUInt32LE messId of
        Inl err \<Rightarrow> Inl err
      | Inr messIdBytes \<Rightarrow>
     (case writeUInt32LE payloadOffset of
        Inl err \<Rightarrow> Inl err
      | Inr payloadOffsetBytes \<Rightarrow>
          if messageClass = js ''1465''
          then Inr ([0xf0, 0xde, 0xbc, 0x0a] @ cmdIdBytes @ messLenBytes @ messIdBytes
                    @ [0x12, 0xdc] @ [0x14, 0x65])
          else if messageClass = js ''1464''
          then Inr ([0xf0, 0xde, 0xbc, 0x0a] @ cmdIdBytes @ messLenBytes @ messIdBytes
                    @ [0x00, 0x00] @ [0x14, 0x64] @ payloadOffsetBytes)
          else Inl (Exn InvalidParameterError
                 (hostmsg s (js ''invalid param message_class '' @ [39] @ messageClass @ [39])))))))"

text \<open>Lines 286 to 295: the encrypted payload.\<close>

definition encrypt_payload ::
  "prims \<Rightarrow> baichuan \<Rightarrow> EncType \<Rightarrow> jsstring \<Rightarrow> jsstring \<Rightarrow> nat \<Rightarrow> exn + buffer" where
  "encrypt_payload P s encType ext body messId =
     (if length ext + length body > 0
      then (case encType of
              BC \<Rightarrow> Inr (encryptBaichuan P ext messId @ encryptBaichuan P body messId)
            | AES \<Rightarrow>
                (case aesEncrypt P s ext of
                   Inl err \<Rightarrow> Inl err
                 | Inr encExt \<Rightarrow>
                     (case aesEncrypt P s body of
                        Inl err \<Rightarrow> Inl err
                      | Inr encBody \<Rightarrow> Inr (encExt @ encBody))))
      else Inr [])"

definition prepare :: "prims \<Rightarrow> baichuan \<Rightarrow> send_args \<Rightarrow> exn + nat \<times> buffer \<times> buffer" where
  "prepare P s a =
     (let messId = resolve_messId a
      in case resolve_ext P s a of
           Inl err \<Rightarrow> Inl err
         | Inr ext \<Rightarrow>
             (case build_header s (arg_cmdId a) (length ext + length (arg_body a)) messId
                     (length ext) (arg_messageClass a) of
                Inl err \<Rightarrow> Inl err
              | Inr header \<Rightarrow>
                  (case encrypt_payload P s (arg_encType a) ext (arg_body a) messId of
                     Inl err \<Rightarrow> Inl err
                   | Inr encBodyBytes \<Rightarrow> Inr (messId, header, encBodyBytes))))"

text \<open>
  \<^verbatim>\<open>connectIfNeeded\<close>: nothing to do on a live socket; otherwise the next entry of the
  script says how the connection attempt ends, and a script that has run out stands for
  a host that does not answer (the timeout of line 183). The wait for the previous
  protocol handle only takes time.
\<close>

definition connectIfNeeded :: "baichuan \<Rightarrow> exn option \<times> baichuan" where
  "connectIfNeeded s =
     (if (case transport s of None \<Rightarrow> False | Some sock \<Rightarrow> protocol s \<and> \<not> destroyed sock)
      then (None, s)
      else case connects s of
             [] \<Rightarrow> (Some (Exn ReolinkConnectionError (hostmsg s (js ''Connection timeout''))), s)
           | Connected # cs \<Rightarrow>
               (None, s\<lparr>connects := cs, transport := Some (Socket False), protocol := True,
                        trace := trace s @ [Connect]\<rparr>)
           | ConnectError m # cs \<Rightarrow>
               (Some (Exn ReolinkConnectionError (hostmsg s (js ''Connection error: '' @ m))),
                s\<lparr>connects := cs\<rparr>)
           | ConnectTimeout # cs \<Rightarrow>
               (Some (Exn ReolinkConnectionError (hostmsg s (js ''Connection timeout''))),
                s\<lparr>connects := cs\<rparr>))"

text \<open>
  Awaiting the response. Modelled from the spec: \<^verbatim>\<open>tcp-protocol.ts\<close> is not among the
  sources; the protocol handle resolves the wait with the frame and the length of its
  header or rejects it with an error, rejects with a TimeoutError when nothing arrives
  within the deadline (a script that has run out), and meanwhile calls the push callback
  for unsolicited frames and the close callback when the socket goes down.
\<close>

definition deliver :: "prims \<Rightarrow> async_event \<Rightarrow> baichuan \<Rightarrow> baichuan" where
  "deliver P ev s =
     (case ev of
        Closed \<Rightarrow> closeCallback (s\<lparr>transport := map_option (\<lambda>sock. Socket True) (transport s)\<rparr>)
      | Push cmdId data lenHeader \<Rightarrow> pushCallback P cmdId data lenHeader s
      | Elapsed ms \<Rightarrow> s\<lparr>now := now s + int ms\<rparr>)"

definition TIMEOUT :: nat where
  "TIMEOUT = 30"

definition await_response :: "prims \<Rightarrow> baichuan \<Rightarrow> (exn + buffer \<times> nat) \<times> baichuan" where
  "await_response P s =
     (case responses s of
        [] \<Rightarrow> (Inl (Exn ReolinkTimeoutError (hostmsg s (js ''Timeout''))),
               s\<lparr>now := now s + int (TIMEOUT * 1000)\<rparr>)
      | r # rs \<Rightarrow> (result r, foldl (\<lambda>s ev. deliver P ev s) (s\<lparr>responses := rs\<rparr>) (before r)))"

text \<open>Lines 358 to 374: what the \<^verbatim>\<open>catch\<close> decides for the error of a failed wait, with
  the budget already decremented.\<close>

datatype decision = RetryAfterDelay | RetryNow | Rethrow

definition catch_policy :: "exn \<Rightarrow> int \<Rightarrow> nat \<Rightarrow> decision" where
  "catch_policy err retry cmdId =
     (if cls err = ApiError 400 \<and> retry > 0 then RetryAfterDelay
      else if cls err = ReolinkTimeoutError \<and> retry > 0 \<and> cmdId \<noteq> 2 then RetryNow
      else if str_includes (message err) (js ''Connection'') \<and> retry > 0 \<and> cmdId \<noteq> 2
      then RetryNow
      else Rethrow)"

definition sleep :: "nat \<Rightarrow> baichuan \<Rightarrow> baichuan" where
  "sleep ms s = s\<lparr>trace := trace s @ [Sleep ms], now := now s + int ms\<rparr>"

definition after_catch :: "decision \<Rightarrow> baichuan \<Rightarrow> baichuan" where
  "after_catch d s = (if d = RetryAfterDelay then sleep 1500 s else s)"

text \<open>Lines 224 to 356: everything up to the wait for the response. \<open>lg\<close> is the login the
  method calls first when the client is not logged in and the command is neither the
  login nor the logout command. An error here is not caught by \<^verbatim>\<open>send\<close>.\<close>

definition before_await ::
  "(baichuan \<Rightarrow> exn option \<times> baichuan) \<Rightarrow> prims \<Rightarrow> send_args \<Rightarrow> baichuan
    \<Rightarrow> (exn + nat) \<times> baichuan" where
  "before_await lg P a s =
     (case (if \<not> loggedIn s \<and> arg_cmdId a > 2 then lg s else (None, s)) of
        (Some err, s1) \<Rightarrow> (Inl err, s1)
      | (None, s1) \<Rightarrow>
          (case prepare P s1 a of
             Inl err \<Rightarrow> (Inl err, s1)
           | Inr (messId, header, encBodyBytes) \<Rightarrow>
               (case connectIfNeeded s1 of
                  (Some err, s2) \<Rightarrow> (Inl err, s2)
                | (None, s2) \<Rightarrow>
                    if \<not> protocol s2 \<or> transport s2 = None
                    then (Inl (Exn ReolinkConnectionError
                                 (hostmsg s2 (js ''Protocol not initialized''))), s2)
                    else (Inr messId, s2\<lparr>trace := trace s2 @ [Write (header @ encBodyBytes)]\<rparr>))))"

function send_with ::
  "(baichuan \<Rightarrow> exn option \<times> baichuan) \<Rightarrow> prims \<Rightarrow> send_args \<Rightarrow> baichuan
    \<Rightarrow> (exn + jsstring) \<times> baichuan" where
  "send_with lg P a s =
     (case before_await lg P a s of
        (Inl err, s1) \<Rightarrow> (Inl err, s1)
      | (Inr messId, s1) \<Rightarrow>
          (case await_response P s1 of
             (Inl err, s2) \<Rightarrow>
               (case catch_policy err (arg_retry a - 1) (arg_cmdId a) of
                  Rethrow \<Rightarrow> (Inl err, s2)
                | d \<Rightarrow> send_with lg P (a\<lparr>arg_messId := Some messId, arg_retry := arg_retry a - 1\<rparr>)
                        (after_catch d s2))
           | (Inr (data, lenHeader), s2) \<Rightarrow>
               (decrypt P s2 data lenHeader (arg_cmdId a) (arg_encType a), s2)))"
  by pat_completeness auto
termination
  apply (relation "measure (\<lambda>(lg, P, a, s). nat (arg_retry a))")
   apply simp
  apply (auto simp: catch_policy_def split: if_splits)
  done

section \<open>Login and logout\<close>

text \<open>
  \<^verbatim>\<open>getNonce\<close> and \<^verbatim>\<open>login\<close> send the bootstrap command 1, for which \<^verbatim>\<open>send\<close> never
  calls \<^verbatim>\<open>login\<close>; they are modelled on \<open>send_with\<close> with a login that is never
  reached, and \<^verbatim>\<open>send\<close> itself is \<open>send_with\<close> over \<^verbatim>\<open>login\<close>. The model runs one
  call at a time, so the login mutex does nothing here.
\<close>

definition no_login :: "baichuan \<Rightarrow> exn option \<times> baichuan" where
  "no_login s = (None, s)"

definition nonce_args :: send_args where
  "nonce_args = (send_defaults 1)\<lparr>arg_encType := BC, arg_messageClass := js ''1465''\<rparr>"

definition login_args :: "prims \<Rightarrow> jsstring \<Rightarrow> jsstring \<Rightarrow> send_args" where
  "login_args P userName pw =
     (send_defaults 1)\<lparr>arg_body := buildLoginXml P userName pw, arg_encType := BC\<rparr>"

definition getNonce :: "prims \<Rightarrow> baichuan \<Rightarrow> (exn + js_value) \<times> baichuan" where
  "getNonce P s =
     (case send_with no_login P nonce_args s of
        (Inl err, s1) \<Rightarrow> (Inl err, s1)
      | (Inr mess, s1) \<Rightarrow>
          if mess = []
          then (Inl (Exn UnexpectedDataError
                       (hostmsg s1 (js ''received empty response when requesting nonce''))), s1)
          else
            (case parse_nonce P mess of
               Inl msg \<Rightarrow> (Inl (Exn OtherError msg), s1)
             | Inr (enc, body) \<Rightarrow>
                 (let s2 = s1\<lparr>nonce := first_truthy [node_text P enc, node_value P enc,
                                                       node_text P body, node_value P body]\<rparr>
                  in case nonce s2 of
                       None \<Rightarrow>
                         (Inl (Exn UnexpectedDataError
                                 (hostmsg s2 (js ''could not find nonce in response:'' @ [10]
                                              @ mess))),
                          s2)
                     | Some n \<Rightarrow>
                         (Inr n,
                          s2\<lparr>aesKey :=
                               Some (utf8_encode
                                      (take 16 (md5StrModern P
                                                 (render n @ js ''-'' @ password s2))))\<rparr>))))"

definition parseDeviceInfo :: "device_info \<Rightarrow> baichuan \<Rightarrow> baichuan" where
  "parseDeviceInfo devInfo s =
     (let s1 = (case (di_type devInfo, di_typeInfo devInfo) of
                  (Some t, Some ti) \<Rightarrow>
                    if t \<noteq> [] \<and> ti \<noteq> [] then
                      (let sa = s\<lparr>devType := t\<rparr>;
                           sb = (if \<not> api_isNvr sa
                                 then sa\<lparr>api_isNvr :=
                                          (t = js ''nvr'' \<or> t = js ''wifi_nvr'' \<or> t = js ''homehub''
                                           \<or> ti = js ''NVR'' \<or> ti = js ''WIFI_NVR''
                                           \<or> ti = js ''HOMEHUB'')\<rparr>
                                 else sa)
                       in if \<not> api_isHub sb
                          then sb\<lparr>api_isHub := (t = js ''homehub'' \<or> ti = js ''HOMEHUB'')\<rparr>
                          else sb)
                    else s
                | _ \<Rightarrow> s);
          s2 = (case di_sleep devInfo of
                  None \<Rightarrow> s1
                | Some sl \<Rightarrow> s1\<lparr>privacyMode := (privacyMode s1)(0 \<mapsto> sl)\<rparr>);
          channelNum = di_channelNum devInfo
      in if channelNum > 0 \<and> api_numChannels s2 = 0 \<and> \<not> api_isNvr s2
         then s2\<lparr>api_channels := [0..<channelNum], api_numChannels := channelNum\<rparr>
         else s2)"

text \<open>Lines 613 to 621 and 635 to 643: the client is logged in once the login command is
  answered; the answer is parsed after that, so an error of the parser leaves it logged
  in.\<close>

definition logged_in :: "prims \<Rightarrow> jsstring \<Rightarrow> baichuan \<Rightarrow> exn option \<times> baichuan" where
  "logged_in P mess s =
     (let s1 = s\<lparr>loggedIn := True\<rparr>
      in case parse_DeviceInfo P mess of
           Inl msg \<Rightarrow> (Some (Exn OtherError msg), s1)
         | Inr None \<Rightarrow> (None, s1)
         | Inr (Some devInfo) \<Rightarrow> (None, parseDeviceInfo devInfo s1))"

definition modern_login :: "prims \<Rightarrow> baichuan \<Rightarrow> exn option \<times> baichuan" where
  "modern_login P s =
     (case getNonce P s of
        (Inl err, s1) \<Rightarrow> (Some err, s1)
      | (Inr n, s1) \<Rightarrow>
          (let uh = md5StrModern P (username s1 @ render n);
               ph = md5StrModern P (password s1 @ render n);
               s2 = s1\<lparr>userHash := Some uh, passwordHash := Some ph\<rparr>
           in case send_with no_login P (login_args P uh ph) s2 of
                (Inl err, s3) \<Rightarrow> (Some err, s3)
              | (Inr mess, s3) \<Rightarrow> logged_in P mess s3))"

definition invalid_credentials :: "baichuan \<Rightarrow> exn" where
  "invalid_credentials s =
     Exn CredentialsInvalidError (hostmsg s (js ''Invalid credentials during login''))"

definition legacy_failed :: "exn \<Rightarrow> baichuan \<Rightarrow> exn option \<times> baichuan" where
  "legacy_failed legacyErr s =
     (if cls legacyErr = ApiError 401 then (Some (invalid_credentials s), s)
      else (Some legacyErr, s))"

definition legacy_login :: "prims \<Rightarrow> baichuan \<Rightarrow> exn option \<times> baichuan" where
  "legacy_login P s =
     (case send_with no_login P (login_args P (username s) (password s)) s of
        (Inl legacyErr, s1) \<Rightarrow> legacy_failed legacyErr s1
      | (Inr mess, s1) \<Rightarrow>
          (case logged_in P mess s1 of
             (None, s2) \<Rightarrow> (None, s2)
           | (Some legacyErr, s2) \<Rightarrow> legacy_failed legacyErr s2))"

definition login :: "prims \<Rightarrow> baichuan \<Rightarrow> exn option \<times> baichuan" where
  "login P s =
     (if loggedIn s then (None, s)
      else case modern_login P s of
             (None, s1) \<Rightarrow> (None, s1)
           | (Some err, s1) \<Rightarrow>
               if cls err = UnexpectedDataError \<and> str_includes (message err) (js ''nonce'')
               then legacy_login P s1
               else if cls err = ApiError 401 then (Some (invalid_credentials s1), s1)
               else (Some err, s1))"

definition send :: "prims \<Rightarrow> send_args \<Rightarrow> baichuan \<Rightarrow> (exn + jsstring) \<times> baichuan" where
  "send P a s = send_with (login P) P a s"

text \<open>
  \<^verbatim>\<open>logout\<close>. Modelled from the spec: closing the protocol handle closes the socket, and
  the handle calls the close callback on socket termination, local or remote.
\<close>

definition close_protocol :: "baichuan \<Rightarrow> baichuan" where
  "close_protocol s =
     closeCallback (s\<lparr>trace := trace s @ [Close],
                      transport := map_option (\<lambda>sock. Socket True) (transport s)\<rparr>)"

definition logout_args :: "prims \<Rightarrow> baichuan \<Rightarrow> send_args" where
  "logout_args P s = (send_defaults 2)\<lparr>arg_body := buildLogoutXml P (username s) (password s)\<rparr>"

definition logout :: "prims \<Rightarrow> baichuan \<Rightarrow> baichuan" where
  "logout P s =
     (if subscribed s then s
      else
        (let s1 = (if loggedIn s \<and> transport s \<noteq> None \<and> protocol s
                   then (case send P (logout_args P s) s of
                           (Inl err, sa) \<Rightarrow>
                             close_protocol
                               (if isReolinkError err
                                then debugLog (hostmsg sa (js ''failed to logout: '' @ message err)) sa
                                else sa)
                         | (Inr mess, sa) \<Rightarrow> close_protocol sa)
                   else s)
         in s1\<lparr>loggedIn := False, eventsActive := False, transport := None, protocol := False,
                nonce := None, aesKey := None, userHash := None, passwordHash := None\<rparr>))"

section \<open>Event subscription\<close>





















text \<open>What no network activity changes: the password, the subscription flag, the timer
  handle and the running timers; and it sets the events flag only on a subscribed
  client.\<close>

definition keeps :: "baichuan \<Rightarrow> baichuan \<Rightarrow> bool" where
  "keeps s s' =
     (password s' = password s \<and> subscribed s' = subscribed s
      \<and> keepaliveTask s' = keepaliveTask s \<and> timers s' = timers s
      \<and> (eventsActive s' \<longrightarrow> eventsActive s \<or> subscribed s))"

text \<open>The retry policy in the specification's words: a busy status is retried after the
  delay; a timeout or a transport error is retried unless the command is the logout
  command or the budget is exhausted; any other error propagates.\<close>

definition spec_retry_policy :: "exn \<Rightarrow> int \<Rightarrow> nat \<Rightarrow> decision" where
  "spec_retry_policy err retry cmdId =
     (if cls err = ApiError 400 then RetryAfterDelay
      else if (cls err = ReolinkTimeoutError \<or> str_includes (message err) (js ''Connection''))
              \<and> \<not> (cmdId = 2 \<or> retry \<le> 0)
      then RetryNow
      else Rethrow)"

text \<open>The debug output of \<^verbatim>\<open>logout\<close> for the outcome of its logout command.\<close>

definition logout_failure_log :: "exn + jsstring \<Rightarrow> baichuan \<Rightarrow> io list" where
  "logout_failure_log r s =
     (case r of
        Inl err \<Rightarrow>
          if isReolinkError err \<and> DEBUG_ENABLED s
          then [DebugLog (hostmsg s (js ''failed to logout: '' @ message err))] else []
      | Inr mess \<Rightarrow> [])"

section \<open>The login mutex under overlapping calls\<close>

text \<open>
  Everything above runs one call at a time. \<^verbatim>\<open>login\<close> is an \<^verbatim>\<open>async\<close> method: it runs
  without interruption from one \<^verbatim>\<open>await\<close> to the next, an \<^verbatim>\<open>await\<close> of a promise
  suspends the caller until the promise is settled, and the suspended callers are resumed
  one by one, in the order in which they began to wait, each in a microtask of its own.
  The model below follows the mutex of lines 586 to 660 at that grain:
  \<^item> a call reads \<^verbatim>\<open>this.loginMutex\<close> and awaits it (line 588);
  \<^item> when it is resumed it makes a new promise, stores it in \<^verbatim>\<open>this.loginMutex\<close>
    (lines 589 to 592), and then either finds the client logged in and returns, or enters
    \<^verbatim>\<open>getNonce\<close> and \<^verbatim>\<open>send\<close>, which run up to \<^verbatim>\<open>await this.connectIfNeeded()\<close>: the
    handshake of this caller has begun;
  \<^item> when its handshake ends, the caller sets \<^verbatim>\<open>loggedIn\<close> on success and, in the
    \<^verbatim>\<open>finally\<close> block, resolves the promise it made (line 658).
  Promises are numbered; promise 0 is the initial \<^verbatim>\<open>Promise.resolve()\<close>.
\<close>

datatype pc = NotCalled | AwaitMutex nat | Handshake nat | Returned bool

record login_cfg =
  lc_loggedIn :: bool
  lc_loginMutex :: nat
  lc_settled :: "nat list"
  lc_fresh :: nat
  lc_pc :: "nat \<Rightarrow> pc"
  lc_callers :: "nat list"
  lc_microtasks :: "nat list"
  lc_handshakes :: "nat list"

datatype login_event = Call nat | Tick | Finish nat bool

definition login_cfg0 :: login_cfg where
  "login_cfg0 =
     \<lparr>lc_loggedIn = False, lc_loginMutex = 0, lc_settled = [0], lc_fresh = 1,
      lc_pc = (\<lambda>c. NotCalled), lc_callers = [], lc_microtasks = [], lc_handshakes = []\<rparr>"

text \<open>Settling a promise resumes the callers that await it, in the order of their calls.\<close>

definition settle :: "nat \<Rightarrow> login_cfg \<Rightarrow> login_cfg" where
  "settle p s =
     s\<lparr>lc_settled := p # lc_settled s,
       lc_microtasks := lc_microtasks s @ filter (\<lambda>c. lc_pc s c = AwaitMutex p) (lc_callers s)\<rparr>"

definition login_step :: "login_event \<Rightarrow> login_cfg \<Rightarrow> login_cfg" where
  "login_step ev s =
     (case ev of
        Call c \<Rightarrow>
          if lc_pc s c \<noteq> NotCalled then s
          else
            (let p = lc_loginMutex s;
                 s1 = s\<lparr>lc_pc := (lc_pc s)(c := AwaitMutex p), lc_callers := lc_callers s @ [c]\<rparr>
             in if p \<in> set (lc_settled s)
                then s1\<lparr>lc_microtasks := lc_microtasks s1 @ [c]\<rparr> else s1)
      | Tick \<Rightarrow>
          (case lc_microtasks s of
             [] \<Rightarrow> s
           | c # rest \<Rightarrow>
               (case lc_pc s c of
                  AwaitMutex p \<Rightarrow>
                    (let q = lc_fresh s;
                         s1 = s\<lparr>lc_microtasks := rest, lc_loginMutex := q, lc_fresh := Suc q\<rparr>
                     in if lc_loggedIn s1
                        then settle q (s1\<lparr>lc_pc := (lc_pc s1)(c := Returned True)\<rparr>)
                        else s1\<lparr>lc_pc := (lc_pc s1)(c := Handshake q),
                                lc_handshakes := lc_handshakes s1 @ [c]\<rparr>)
                | _ \<Rightarrow> s\<lparr>lc_microtasks := rest\<rparr>))
      | Finish c ok \<Rightarrow>
          (case lc_pc s c of
             Handshake q \<Rightarrow>
               settle q (s\<lparr>lc_loggedIn := (ok \<or> lc_loggedIn s),
                           lc_pc := (lc_pc s)(c := Returned ok)\<rparr>)
           | _ \<Rightarrow> s))"

definition login_run :: "login_event list \<Rightarrow> login_cfg \<Rightarrow> login_cfg" where
  "login_run evs s = foldl (\<lambda>s ev. login_step ev s) s evs"

section \<open>Concrete inputs\<close>

text \<open>The constructor: the field initialisers of the class, for a host, a user name, a
  password and the debug flag of the environment.\<close>

definition init_state :: "jsstring \<Rightarrow> jsstring \<Rightarrow> jsstring \<Rightarrow> bool \<Rightarrow> baichuan" where
  "init_state h u p dbg =
     \<lparr>host = h, username = u, password = p, nonce = None, userHash = None, passwordHash = None,
      aesKey = None, transport = None, protocol = False, loggedIn = False, subscribed = False,
      eventsActive = False, keepaliveTask = None, keepaliveInterval = 30, timeKeepaliveLoop = 0,
      timeConnectionLost = 0, extCallback = [], devType = [], privacyMode = Map.empty,
      api_isNvr = False, api_isHub = False, api_numChannels = 0, api_channels = [],
      api_motionDetectionStates = Map.empty, api_visitorStates = Map.empty,
      api_aiDetectionStates = Map.empty, DEBUG_ENABLED = dbg, timers = [], now = 0, trace = [],
      connects = [], responses = []\<rparr>"

text \<open>Stand-ins for the primitives, to run the model on concrete inputs: an XOR with the
  offset for the legacy cipher, an XOR with the key length for AES-CFB (both keep the
  length, as the real ciphers do), a byte-to-code-unit map for UTF-8 decoding (exact on
  ASCII), a 32-digit string for the hash, and fixed shapes for the XML helpers. The
  stand-in for the parser of the nonce answer rejects a document that does not end with
  \<^verbatim>\<open>>\<close>, and otherwise finds the text between \<^verbatim>\<open><nonce>\<close> and the next tag, which it
  takes to be at \<^verbatim>\<open>body.Encryption.nonce\<close>; a text that is not of digits keeps its value as
  a string. No general theorem depends on them.\<close>

fun text_after :: "jsstring \<Rightarrow> jsstring \<Rightarrow> jsstring option" where
  "text_after pat [] = None"
| "text_after pat (x # xs) =
     (if startsWith (x # xs) pat then Some (drop (length pat) (x # xs)) else text_after pat xs)"

definition sample_nonce :: "jsstring \<Rightarrow> jsstring + xml_node option \<times> xml_node option" where
  "sample_nonce m =
     (if m = [] \<or> last m \<noteq> 62 then Inl (js ''Unclosed tag'')
      else case text_after (js ''<nonce>'') m of
             None \<Rightarrow> Inr (None, None)
           | Some r \<Rightarrow> Inr (Some (Leaf (takeWhile (\<lambda>u. u \<noteq> 60) r)), None))"

definition sample_events :: "jsstring \<Rightarrow> exn + alarm_event list" where
  "sample_events m =
     (if m = js ''<?xml MD 0''
      then Inr [\<lparr>ev_channelId = Some 0, ev_channel = None, ev_status = Some (js ''MD''),
                 ev_AItype = None\<rparr>]
      else Inr [])"

definition sample_prims :: prims where
  "sample_prims =
     \<lparr>decryptBaichuan = (\<lambda>b off. Inr (map (\<lambda>x. of_nat (unat (xor x (of_nat off)))) b)),
      encryptBaichuan = (\<lambda>t off. map (\<lambda>x. xor x (of_nat off)) (utf8_encode t)),
      md5StrModern = (\<lambda>t. take 32 (toHex (utf8_encode t) @ replicate 32 48)),
      aes_cfb_encrypt = (\<lambda>k b. map (\<lambda>x. xor x (of_nat (length k))) b),
      aes_cfb_decrypt = (\<lambda>k b. map (\<lambda>x. xor x (of_nat (length k))) b),
      toString_utf8 = map (\<lambda>x. of_nat (unat x)),
      buildChannelExtensionXml = (\<lambda>c. js ''<?xml ch '' @ decimal c),
      buildLoginXml = (\<lambda>u p. js ''<?xml login '' @ u @ js '' '' @ p),
      buildLogoutXml = (\<lambda>u p. js ''<?xml logout '' @ u @ js '' '' @ p),
      parse_nonce = sample_nonce,
      other_tag_value = JString,
      parse_DeviceInfo = (\<lambda>m. Inr None),
      parse_events = sample_events\<rparr>"

definition cam0 :: baichuan where
  "cam0 = init_state (js ''cam'') (js ''admin'') (js ''secret'') False"

text \<open>A frame with a 20-byte header whose encoding field is 04dd, and a frame with a
  24-byte header; the payload of both is the five bytes of the prologue in plaintext, the
  sequence number is 250.\<close>

definition frame_unknown_enc :: buffer where
  "frame_unknown_enc =
     [0xf0, 0xde, 0xbc, 0x0a, 0x21, 0, 0, 0, 5, 0, 0, 0, 0xfa, 0, 0, 0, 0x04, 0xdd, 0x14, 0x65,
      0x3c, 0x3f, 0x78, 0x6d, 0x6c]"

definition frame_plain24 :: buffer where
  "frame_plain24 =
     [0xf0, 0xde, 0xbc, 0x0a, 0x21, 0, 0, 0, 5, 0, 0, 0, 0xfa, 0, 0, 0, 0xc8, 0, 0x14, 0x64,
      0, 0, 0, 0, 0x3c, 0x3f, 0x78, 0x6d, 0x6c]"

text \<open>A camera with debugging on, channel 0 known, one throwing and one returning callback
  for (33, channel 0) and one callback for (33, any channel); and the same camera
  subscribed, with events active, 500 seconds after the epoch.\<close>

definition cam_callbacks :: baichuan where
  "cam_callbacks =
     registerCallback (js ''c'') (Callback 3 None) (Some 33) None
       (registerCallback (js ''b'') (Callback 2 None) (Some 33) (Some 0)
          (registerCallback (js ''a'') (Callback 1 (Some (js ''boom''))) (Some 33) (Some 0)
             ((init_state (js ''cam'') (js ''admin'') (js ''secret'') True)
                \<lparr>api_channels := [0], api_numChannels := 1\<rparr>)))"

definition cam_subscribed :: baichuan where
  "cam_subscribed =
     cam_callbacks\<lparr>loggedIn := True, subscribed := True, eventsActive := True,
                    keepaliveTask := Some 0, timers := [0], now := 500000\<rparr>"

text \<open>A pushed frame for command 33 with a 24-byte header; its payload is the plaintext
  \<^verbatim>\<open><?xml MD 0\<close>, which the stand-in parser reads as one event of channel 0 with the
  status MD.\<close>

definition frame_push_md :: buffer where
  "frame_push_md =
     [0xf0, 0xde, 0xbc, 0x0a, 0x21, 0, 0, 0, 10, 0, 0, 0, 0xfa, 0, 0, 0, 0xc8, 0, 0x14, 0x64,
      0, 0, 0, 0, 0x3c, 0x3f, 0x78, 0x6d, 0x6c, 0x20, 0x4d, 0x44, 0x20, 0x30]"







definition busy :: resp_outcome where
  "busy = \<lparr>before = [], result = Inl (Exn (ApiError 400) (js ''API error 400''))\<rparr>"

text \<open>A camera that is logged in over a live socket with a 16-byte AES key, and the network
  silent.\<close>

definition cam_logged_in :: baichuan where
  "cam_logged_in =
     cam0\<lparr>loggedIn := True, transport := Some (Socket False), protocol := True,
           nonce := Some (JString (js ''abc'')), userHash := Some (js ''U''), passwordHash := Some (js ''P''),
           aesKey := Some (utf8_encode (js ''0123456789abcdef''))\<rparr>"


text \<open>A camera with a live socket that is not logged in.\<close>

definition cam_connected :: baichuan where
  "cam_connected = cam0\<lparr>transport := Some (Socket False), protocol := True\<rparr>"

text \<open>The frame the client writes for the keepalive command 93: no payload, sequence
  number 250.\<close>

definition frame93 :: buffer where
  "frame93 = [0xf0, 0xde, 0xbc, 0x0a, 93, 0, 0, 0, 0, 0, 0, 0, 0xfa, 0, 0, 0, 0, 0, 0x14, 0x64,
              0, 0, 0, 0]"

section \<open>Properties\<close>

lemmas run_simps = js_def toHex_def hex_digit_def slice_def readUInt32LE_def startsWith_def
  XML_PROLOGUE_def sample_prims_def cam0_def init_state_def

subsection \<open>The decode chain\<close>

lemma decrypt_validate_prologue:
  "decrypt_validate P s cmdId off t encBody header r = Inr b \<Longrightarrow> startsWith b XML_PROLOGUE"
  by (auto simp: decrypt_validate_def Let_def split: if_splits sum.splits)

lemma decrypt_prologue:
  "decrypt P s data lenHeader cmdId encType = Inr b \<Longrightarrow> drop lenHeader data \<noteq> []
    \<Longrightarrow> startsWith b XML_PROLOGUE"
  by (auto simp: decrypt_def Let_def split: sum.splits if_splits dest: decrypt_validate_prologue)

lemma decrypt_chain:
  assumes off: "readUInt32LE data 12 = Inr off" and ne: "drop lenHeader data \<noteq> []"
    and L: "decryptBaichuan P (drop lenHeader data) off = Inr L"
  shows "decrypt P s data lenHeader cmdId encType =
       (case attempt_order s (toHex (slice data 16 18)) lenHeader encType of
          None \<Rightarrow> Inl (unknown_enc_error s (toHex (slice data 16 18)) data)
        | Some as \<Rightarrow>
            (case first_xml (decoded P s (drop lenHeader data) off (take lenHeader data) as) of
               Some b \<Rightarrow> Inr b
             | None \<Rightarrow> Inl (unable_error s cmdId (take lenHeader data) L (drop lenHeader data))))"
proof -
  define t where "t = toHex (slice data 16 18)"
  define e where "e = drop lenHeader data"
  define h where "h = take lenHeader data"
  define pl where "pl = toString_utf8 P e"
  have Le: "decryptBaichuan P e off = Inr L" using L by (simp add: e_def)
  have D: "decrypt P s data lenHeader cmdId encType =
      (case decrypt_first P s data lenHeader encType off t e h of
         Inl err \<Rightarrow> Inl err
       | Inr r \<Rightarrow> decrypt_validate P s cmdId off t e h r)"
    unfolding t_def e_def h_def using off ne by (simp add: decrypt_def Let_def)
  have V: "\<And>r. decrypt_validate P s cmdId off t e h r =
      (if startsWith r XML_PROLOGUE then Inr r
       else if t = js ''00dd'' \<and> startsWith pl XML_PROLOGUE then Inr pl
       else if startsWith L XML_PROLOGUE then Inr L
       else Inl (unable_error s cmdId h L e))"
    by (simp add: decrypt_validate_def Let_def Le pl_def)
  let ?c1 = "(lenHeader = 20 \<and> (t = js ''01dd'' \<or> t = js ''12dd'')) \<or> encType = BC"
  let ?c2 = "(lenHeader = 20 \<and> (t = js ''02dd'' \<or> t = js ''03dd''))
               \<or> (lenHeader = 24 \<and> aesKey s \<noteq> None)"
  let ?c3 = "t = js ''00dd'' \<or> lenHeader = 24"
  consider (b1) ?c1 | (b2) "\<not> ?c1" ?c2 | (b3) "\<not> ?c1" "\<not> ?c2" ?c3
    | (b4) "\<not> ?c1" "\<not> ?c2" "\<not> ?c3"
    by blast
  then have "(case decrypt_first P s data lenHeader encType off t e h of
         Inl err \<Rightarrow> Inl err
       | Inr r \<Rightarrow> decrypt_validate P s cmdId off t e h r) =
      (case attempt_order s t lenHeader encType of
          None \<Rightarrow> Inl (unknown_enc_error s t data)
        | Some as \<Rightarrow>
            (case first_xml (decoded P s e off h as) of
               Some b \<Rightarrow> Inr b
             | None \<Rightarrow> Inl (unable_error s cmdId h L e)))"
  proof cases
    case b1
    have F: "decrypt_first P s data lenHeader encType off t e h = Inr L"
      using b1 by (auto simp add: decrypt_first_def Le)
    have A: "attempt_order s t lenHeader encType
               = Some (Legacy # (if t = js ''00dd'' then [Plain] else []))"
      using b1 by (auto simp add: attempt_order_def)
    show ?thesis
      by (simp add: F A V decoded_def first_xml_def attempt_result_def List.map_filter_simps
          Le pl_def)
  next
    case b2
    have A: "attempt_order s t lenHeader encType
               = Some (Aes # Legacy # (if t = js ''00dd'' then [Plain] else []))"
      using b2 by (auto simp add: attempt_order_def)
    show ?thesis
    proof (cases "aesKey s")
      case None
      have F: "decrypt_first P s data lenHeader encType off t e h = Inr L"
        using b2 None by (auto simp add: decrypt_first_def Le aesDecrypt_def)
      show ?thesis
        by (simp add: F A V decoded_def first_xml_def attempt_result_def List.map_filter_simps
            Le pl_def aesDecrypt_def None)
    next
      case (Some k)
      define a where "a = toString_utf8 P (aes_cfb_decrypt P k e)"
      have F: "decrypt_first P s data lenHeader encType off t e h =
          (if startsWith a XML_PROLOGUE then Inr a else Inr L)"
        using b2 Some by (auto simp add: decrypt_first_def Le aesDecrypt_def a_def)
      show ?thesis
        by (simp add: F A V decoded_def first_xml_def attempt_result_def List.map_filter_simps
            Le pl_def aesDecrypt_def Some a_def)
    qed
  next
    case b3
    have F: "decrypt_first P s data lenHeader encType off t e h =
          (if startsWith L XML_PROLOGUE then Inr L else Inr pl)"
      using b3 by (auto simp add: decrypt_first_def Le pl_def)
    have A: "attempt_order s t lenHeader encType = Some [Legacy, Plain]"
      using b3 by (auto simp add: attempt_order_def)
    show ?thesis
      by (simp add: F A V decoded_def first_xml_def attempt_result_def List.map_filter_simps
          Le pl_def)
  next
    case b4
    have F: "decrypt_first P s data lenHeader encType off t e h
               = Inl (unknown_enc_error s t data)"
      using b4 by (auto simp add: decrypt_first_def)
    have A: "attempt_order s t lenHeader encType = None"
      using b4 by (auto simp add: attempt_order_def)
    show ?thesis by (simp add: F A)
  qed
  then show ?thesis unfolding D unfolding t_def e_def h_def .
qed

text \<open>
  C1 (as amended). For a frame with a non-empty payload, \<^verbatim>\<open>decrypt\<close> never returns a
  body that does not begin with the prologue. Where the frame has its sequence number and
  the legacy cipher decodes the payload to \<open>L\<close>, the attempts are those of
  \<open>attempt_order\<close>, in that order: the legacy cipher alone (then plaintext under a 00dd
  header) when the caller sent with the legacy encoding or a 20-byte header declares it;
  AES when a key is there, then the legacy cipher (then plaintext under 00dd) when a 20-byte
  header declares AES or the header has 24 bytes and a key is there; the legacy cipher, then
  plaintext, under a 00dd header or a 24-byte header; and none, with an
  InvalidContentTypeError, for any other encoding field. The first result with the prologue
  is returned; when there is none the UnexpectedDataError quotes the first five code units
  of the legacy result and the first five bytes of the payload.
\<close>

theorem decrypt_fallback_chain:
  "(decrypt P s data lenHeader cmdId encType = Inr b \<and> drop lenHeader data \<noteq> []
      \<longrightarrow> startsWith b XML_PROLOGUE)
   \<and> (readUInt32LE data 12 = Inr off \<and> drop lenHeader data \<noteq> []
        \<and> decryptBaichuan P (drop lenHeader data) off = Inr L
      \<longrightarrow> decrypt P s data lenHeader cmdId encType =
           (case attempt_order s (toHex (slice data 16 18)) lenHeader encType of
              None \<Rightarrow> Inl (unknown_enc_error s (toHex (slice data 16 18)) data)
            | Some as \<Rightarrow>
                (case first_xml (decoded P s (drop lenHeader data) off (take lenHeader data) as) of
                   Some b \<Rightarrow> Inr b
                 | None \<Rightarrow> Inl (unable_error s cmdId (take lenHeader data) L
                                  (drop lenHeader data)))))"
  using decrypt_prologue decrypt_chain by blast

text \<open>Witness for C1: a 24-byte header, no AES key, the prologue in plaintext. The legacy
  cipher is tried first and gives no prologue; the plaintext is returned.\<close>

theorem decrypt_fallback_chain_witness:
  "readUInt32LE frame_plain24 12 = Inr 250
   \<and> drop 24 frame_plain24 \<noteq> []
   \<and> decryptBaichuan sample_prims (drop 24 frame_plain24) 250 = Inr [0xc6, 0xc5, 0x82, 0x97, 0x96]
   \<and> attempt_order cam0 (toHex (slice frame_plain24 16 18)) 24 AES = Some [Legacy, Plain]
   \<and> decrypt sample_prims cam0 frame_plain24 24 33 AES = Inr (js ''<?xml'')
   \<and> startsWith (js ''<?xml'') XML_PROLOGUE"
proof -
  have a: "readUInt32LE frame_plain24 12 = Inr 250"
    by (simp add: frame_plain24_def run_simps)
  have b: "drop 24 frame_plain24 \<noteq> []"
    by (simp add: frame_plain24_def)
  have c: "decryptBaichuan sample_prims (drop 24 frame_plain24) 250
             = Inr [0xc6, 0xc5, 0x82, 0x97, 0x96]"
    by (simp add: frame_plain24_def run_simps)
  have o: "attempt_order cam0 (toHex (slice frame_plain24 16 18)) 24 AES = Some [Legacy, Plain]"
    by (simp add: attempt_order_def frame_plain24_def run_simps)
  have f: "first_xml (decoded sample_prims cam0 (drop 24 frame_plain24) 250
              (take 24 frame_plain24) [Legacy, Plain]) = Some (js ''<?xml'')"
    by (simp add: first_xml_def decoded_def attempt_result_def List.map_filter_simps
        frame_plain24_def run_simps)
  have d: "decrypt sample_prims cam0 frame_plain24 24 33 AES = Inr (js ''<?xml'')"
    using decrypt_fallback_chain [of sample_prims cam0 frame_plain24 24 33 AES
        "js ''<?xml''" 250 "[0xc6, 0xc5, 0x82, 0x97, 0x96]"] a b c
    by (simp add: o f)
  have p: "startsWith (js ''<?xml'') XML_PROLOGUE"
    using decrypt_fallback_chain [of sample_prims cam0 frame_plain24 24 33 AES
        "js ''<?xml''" 250 "[0xc6, 0xc5, 0x82, 0x97, 0x96]"] d b
    by blast
  show ?thesis using a b c o d p by blast
qed

text \<open>Counterexample to C1 as stated: a 20-byte header with the encoding field 04dd and the
  prologue in plaintext. The chain of the specification ends at the plaintext and returns
  it; \<^verbatim>\<open>decrypt\<close> makes no attempt and fails with an InvalidContentTypeError.\<close>

theorem decrypt_fallback_chain_counterexample:
  "spec_decode_chain sample_prims cam0 frame_unknown_enc 20 33 = Inr (js ''<?xml'')
   \<and> decrypt sample_prims cam0 frame_unknown_enc 20 33 AES
       = Inl (unknown_enc_error cam0 (js ''04dd'') frame_unknown_enc)
   \<and> cls (unknown_enc_error cam0 (js ''04dd'') frame_unknown_enc) = InvalidContentTypeError"
proof -
  have "spec_decode_chain sample_prims cam0 frame_unknown_enc 20 33 = Inr (js ''<?xml'')"
    by (simp add: spec_decode_chain_def frame_unknown_enc_def Let_def run_simps decoded_def
        first_xml_def attempt_result_def List.map_filter_simps)
  moreover have "decrypt sample_prims cam0 frame_unknown_enc 20 33 AES
       = Inl (unknown_enc_error cam0 (js ''04dd'') frame_unknown_enc)"
    by (simp add: decrypt_def decrypt_first_def frame_unknown_enc_def Let_def run_simps)
  moreover have "cls (unknown_enc_error cam0 (js ''04dd'') frame_unknown_enc)
       = InvalidContentTypeError"
    by (simp add: unknown_enc_error_def)
  ultimately show ?thesis by blast
qed

subsection \<open>Callbacks\<close>

lemma callback_error_msg_trace [simp]:
  "callback_error_msg (s\<lparr>trace := t\<rparr>) e = callback_error_msg s e"
  by (simp add: callback_error_msg_def hostmsg_def)

lemma callback_io_trace [simp]: "callback_io (s\<lparr>trace := t\<rparr>) = callback_io s"
  by (rule ext) (simp add: callback_io_def split: option.splits)

lemma callback_io_pair:
  "callback_io s (i, cb) =
     Invoke i cb # (case cb_throws cb of None \<Rightarrow> []
        | Some m \<Rightarrow> if DEBUG_ENABLED s then [DebugLog (callback_error_msg s (Exn OtherError m))] else [])"
  by (simp add: callback_io_def)

lemma run_callbacks_trace:
  "run_callbacks cbs s = s\<lparr>trace := trace s @ concat (map (callback_io s) cbs)\<rparr>"
proof (induction cbs arbitrary: s)
  case Nil
  show ?case by simp
next
  case (Cons p cbs)
  obtain i cb where p: "p = (i, cb)" by (cases p)
  show ?case
  proof (cases "cb_throws cb")
    case None
    then show ?thesis
      by (simp add: p Cons.IH invoke_def callback_io_pair)
  next
    case (Some m)
    then show ?thesis
      by (simp add: p Cons.IH invoke_def callback_io_pair debugLog_def)
  qed
qed

lemma executeCallbacks_trace:
  "executeCallbacks cmdId channel s =
     s\<lparr>trace := trace s @ concat (map (callback_io s) (slot (extCallback s) cmdId channel))\<rparr>"
  by (simp add: executeCallbacks_def slot_def run_callbacks_trace split: option.splits)

lemma set_update_subset: "set (AList.update k v al) \<subseteq> insert (k, v) (set al)"
  by (induction al) auto

lemma registry_wfD:
  "registry_wf reg \<Longrightarrow> (c, m) \<in> set reg \<Longrightarrow> (ch, cbs) \<in> set m \<Longrightarrow> distinct (map fst cbs)"
  unfolding registry_wf_def list_all_iff by fast

lemma registry_wfI:
  "(\<And>c m ch cbs. (c, m) \<in> set reg \<Longrightarrow> (ch, cbs) \<in> set m \<Longrightarrow> distinct (map fst cbs))
    \<Longrightarrow> registry_wf reg"
  unfolding registry_wf_def list_all_iff by fast

lemma registry_wf_slot: "registry_wf reg \<Longrightarrow> distinct (map fst (slot reg c ch))"
  unfolding slot_def
  by (auto split: option.splits dest!: map_of_SomeD dest: registry_wfD)

lemma registerCallback_wf:
  assumes wf: "registry_wf (extCallback s)"
  shows "registry_wf (extCallback (registerCallback i cb c ch s))"
proof -
  define m where "m = (case map_of (extCallback s) c of None \<Rightarrow> [] | Some m \<Rightarrow> m)"
  define cbs where "cbs = (case map_of m ch of None \<Rightarrow> [] | Some x \<Rightarrow> x)"
  have m: "distinct (map fst cbs')" if "(ch', cbs') \<in> set m" for ch' cbs'
  proof (cases "map_of (extCallback s) c")
    case None
    with that show ?thesis by (simp add: m_def)
  next
    case (Some x)
    then have cm: "(c, m) \<in> set (extCallback s)" by (simp add: m_def map_of_SomeD)
    show ?thesis using wf cm that by (rule registry_wfD)
  qed
  have cbs: "distinct (map fst cbs)"
  proof (cases "map_of m ch")
    case None
    then show ?thesis by (simp add: cbs_def)
  next
    case (Some x)
    then have "(ch, cbs) \<in> set m" by (simp add: cbs_def map_of_SomeD)
    then show ?thesis by (rule m)
  qed
  have c2: "distinct (map fst (AList.update i cb cbs))"
    using cbs by (rule distinct_update)
  have m2: "distinct (map fst cbs')"
    if "(ch', cbs') \<in> set (AList.update ch (AList.update i cb cbs) m)" for ch' cbs'
  proof -
    from that set_update_subset [of ch "AList.update i cb cbs" m]
    have "(ch', cbs') = (ch, AList.update i cb cbs) \<or> (ch', cbs') \<in> set m" by blast
    then show ?thesis using c2 m by auto
  qed
  have E: "extCallback (registerCallback i cb c ch s)
             = AList.update c (AList.update ch (AList.update i cb cbs) m) (extCallback s)"
    by (simp add: registerCallback_def Let_def m_def cbs_def)
  show ?thesis
    unfolding E
  proof (rule registry_wfI)
    fix c' m' ch' cbs'
    assume a: "(c', m') \<in> set (AList.update c (AList.update ch (AList.update i cb cbs) m) (extCallback s))"
      and b: "(ch', cbs') \<in> set m'"
    from a set_update_subset [of c "AList.update ch (AList.update i cb cbs) m" "extCallback s"]
    have "(c', m') = (c, AList.update ch (AList.update i cb cbs) m) \<or> (c', m') \<in> set (extCallback s)"
      by blast
    then show "distinct (map fst cbs')"
    proof
      assume "(c', m') = (c, AList.update ch (AList.update i cb cbs) m)"
      with b show ?thesis using m2 by simp
    next
      assume cm: "(c', m') \<in> set (extCallback s)"
      show ?thesis using wf cm b by (rule registry_wfD)
    qed
  qed
qed

lemma unregisterCallback_wf:
  assumes wf: "registry_wf (extCallback s)"
  shows "registry_wf (extCallback (unregisterCallback i s))"
proof (rule registry_wfI)
  fix c m ch cbs
  assume a: "(c, m) \<in> set (extCallback (unregisterCallback i s))" and b: "(ch, cbs) \<in> set m"
  from a obtain m0 where m0: "(c, m0) \<in> set (extCallback s)"
    and m: "m = filter (\<lambda>(channel, channelCallbacks). channelCallbacks \<noteq> [])
                 (map (\<lambda>(channel, channelCallbacks). (channel, AList.delete i channelCallbacks)) m0)"
    by (auto simp: unregisterCallback_def)
  from b m obtain cbs0 where c0: "(ch, cbs0) \<in> set m0" and d: "cbs = AList.delete i cbs0"
    by auto
  have "distinct (map fst cbs0)" using wf m0 c0 by (rule registry_wfD)
  then show "distinct (map fst cbs)" unfolding d by (rule distinct_delete)
qed

lemma slot_registerCallback:
  "slot (extCallback (registerCallback i cb c ch s)) c ch = AList.update i cb (slot (extCallback s) c ch)"
  by (simp add: registerCallback_def Let_def slot_def update_conv' split: option.splits)

lemma registry_wf_init: "registry_wf (extCallback (init_state h u p d))"
  by (simp add: init_state_def registry_wf_def)

lemma invoked_ids_append: "invoked_ids (xs @ ys) = invoked_ids xs @ invoked_ids ys"
  by (induction xs rule: invoked_ids.induct) simp_all

lemma invoked_ids_callback_io: "invoked_ids (concat (map (callback_io s) cbs)) = map fst cbs"
  by (induction cbs) (auto simp: callback_io_def invoked_ids_append split: option.splits)

text \<open>
  C10. One call of \<^verbatim>\<open>executeCallbacks\<close> for a key (commandId, channel) changes nothing but
  the record of what the client did: it calls the callbacks registered under that key, each
  once, in the order of their registration, and after a callback that throws it writes the
  debug message (when debugging is on) and goes on with the next. The callback
  identifiers under one key are distinct, so every registered callback is called exactly
  once; and a callback registered with \<^verbatim>\<open>registerCallback\<close> is the one found under its
  identifier. Nothing is thrown: the result is a state, as is that of the push handler.
\<close>

theorem executeCallbacks_each_once:
  assumes "registry_wf (extCallback s)"
  shows "executeCallbacks cmdId channel s =
           s\<lparr>trace := trace s @ concat (map (callback_io s) (slot (extCallback s) cmdId channel))\<rparr>
       \<and> invoked_ids (trace (executeCallbacks cmdId channel s)) =
           invoked_ids (trace s) @ map fst (slot (extCallback s) cmdId channel)
       \<and> distinct (map fst (slot (extCallback s) cmdId channel))
       \<and> registry_wf (extCallback (registerCallback i cb cmdId channel s))
       \<and> map_of (slot (extCallback (registerCallback i cb cmdId channel s)) cmdId channel) i = Some cb"
proof -
  have a: "executeCallbacks cmdId channel s =
           s\<lparr>trace := trace s @ concat (map (callback_io s) (slot (extCallback s) cmdId channel))\<rparr>"
    by (rule executeCallbacks_trace)
  have b: "invoked_ids (trace (executeCallbacks cmdId channel s)) =
           invoked_ids (trace s) @ map fst (slot (extCallback s) cmdId channel)"
    by (simp add: a invoked_ids_append invoked_ids_callback_io)
  have c: "distinct (map fst (slot (extCallback s) cmdId channel))"
    using assms by (rule registry_wf_slot)
  have d: "registry_wf (extCallback (registerCallback i cb cmdId channel s))"
    using assms by (rule registerCallback_wf)
  have e: "map_of (slot (extCallback (registerCallback i cb cmdId channel s)) cmdId channel) i = Some cb"
    by (simp add: slot_registerCallback update_conv')
  show ?thesis using a b c d e by blast
qed

lemma cam_callbacks_wf: "registry_wf (extCallback cam_callbacks)"
  unfolding cam_callbacks_def
  by (intro registerCallback_wf) (simp add: init_state_def registry_wf_def)

lemma cam_callbacks_slot_channel: "slot (extCallback cam_callbacks) (Some 33) (Some 0) =
   [(js ''a'', Callback 1 (Some (js ''boom''))), (js ''b'', Callback 2 None)]"
  by (simp add: cam_callbacks_def registerCallback_def slot_def init_state_def js_def)

lemma cam_callbacks_slot_any: "slot (extCallback cam_callbacks) (Some 33) None = [(js ''c'', Callback 3 None)]"
  by (simp add: cam_callbacks_def registerCallback_def slot_def init_state_def js_def)

lemma cam_callbacks_fields:
  "api_channels cam_callbacks = [0]" "trace cam_callbacks = []" "DEBUG_ENABLED cam_callbacks"
  "aesKey cam_callbacks = None" "host cam_callbacks = js ''cam''"
  by (simp_all add: cam_callbacks_def registerCallback_def init_state_def Let_def)

text \<open>Witness for C10: two callbacks under (33, channel 0), the first of which throws; both
  are called, the error of the first is written to the debug output in between.\<close>

theorem executeCallbacks_each_once_witness:
  "registry_wf (extCallback cam_callbacks)
   \<and> trace (executeCallbacks (Some 33) (Some 0) cam_callbacks) =
       [Invoke (js ''a'') (Callback 1 (Some (js ''boom''))),
        DebugLog (callback_error_msg cam_callbacks (Exn OtherError (js ''boom''))),
        Invoke (js ''b'') (Callback 2 None)]
   \<and> invoked_ids (trace (executeCallbacks (Some 33) (Some 0) cam_callbacks)) = [js ''a'', js ''b'']"
proof -
  have "trace (executeCallbacks (Some 33) (Some 0) cam_callbacks) =
       [Invoke (js ''a'') (Callback 1 (Some (js ''boom''))),
        DebugLog (callback_error_msg cam_callbacks (Exn OtherError (js ''boom''))),
        Invoke (js ''b'') (Callback 2 None)]"
    using executeCallbacks_each_once [OF cam_callbacks_wf, of "Some 33" "Some 0"]
    by (simp add: cam_callbacks_slot_channel callback_io_def cam_callbacks_fields)
  then show ?thesis
    using cam_callbacks_wf by simp
qed

subsection \<open>Push dispatch\<close>

lemma callback_io_cong:
  "DEBUG_ENABLED s' = DEBUG_ENABLED s \<Longrightarrow> host s' = host s \<Longrightarrow> callback_io s' = callback_io s"
  by (rule ext) (simp add: callback_io_def callback_error_msg_def hostmsg_def split: option.splits)

lemma executeCallbacks_twice:
  "executeCallbacks c None (executeCallbacks c (Some ch) s) =
     s\<lparr>trace := trace s @ concat (map (callback_io s) (slot (extCallback s) c (Some ch)))
                 @ concat (map (callback_io s) (slot (extCallback s) c None))\<rparr>"
  by (simp add: executeCallbacks_trace)

lemma handle_event_unknown:
  "event_channel ev = Some ch \<Longrightarrow> ch \<notin> set (api_channels s) \<Longrightarrow> handle_event cmdId ev s = s"
  by (simp add: handle_event_def)

lemma handle_event_none:
  "event_channel ev = None \<Longrightarrow> handle_event cmdId ev s = s"
  by (simp add: handle_event_def)

lemma mark_events_active_frame [simp]:
  "trace (mark_events_active s) = trace s" "extCallback (mark_events_active s) = extCallback s"
  "DEBUG_ENABLED (mark_events_active s) = DEBUG_ENABLED s" "host (mark_events_active s) = host s"
  by (simp_all add: mark_events_active_def)

lemma update_status_frame [simp]:
  "trace (update_status ch st s) = trace s" "extCallback (update_status ch st s) = extCallback s"
  "DEBUG_ENABLED (update_status ch st s) = DEBUG_ENABLED s" "host (update_status ch st s) = host s"
  by (simp_all add: update_status_def)

lemma update_ai_frame [simp]:
  "trace (update_ai ch ai s) = trace s" "extCallback (update_ai ch ai s) = extCallback s"
  "DEBUG_ENABLED (update_ai ch ai s) = DEBUG_ENABLED s" "host (update_ai ch ai s) = host s"
  by (simp_all add: update_ai_def Let_def split: option.splits)

lemma update_ai_motion:
  "api_motionDetectionStates s ch = Some True \<Longrightarrow>
     api_motionDetectionStates (update_ai ch ai s) ch = Some True"
  by (simp add: update_ai_def Let_def split: option.splits)

lemma handle_event_motion:
  assumes ch: "event_channel ev = Some ch" and known: "ch \<in> set (api_channels s)"
    and st: "ev_status ev = Some st" and md: "str_includes st (js ''MD'')"
  shows "api_motionDetectionStates (handle_event cmdId ev s) ch = Some True"
    and "trace (handle_event cmdId ev s) =
          trace s @ concat (map (callback_io s) (slot (extCallback s) (Some cmdId) (Some ch)))
                  @ concat (map (callback_io s) (slot (extCallback s) (Some cmdId) None))"
proof -
  define s2 where "s2 = update_status ch st (mark_events_active s)"
  define s3 where "s3 = (case ev_AItype ev of None \<Rightarrow> s2 | Some aiTypes \<Rightarrow> update_ai ch aiTypes s2)"
  have H: "handle_event cmdId ev s =
             executeCallbacks (Some cmdId) None (executeCallbacks (Some cmdId) (Some ch) s3)"
    unfolding s3_def s2_def using ch known st by (simp add: handle_event_def Let_def)
  have m2: "api_motionDetectionStates s2 ch = Some True"
    using md by (simp add: s2_def update_status_def)
  have f3: "trace s3 = trace s" "extCallback s3 = extCallback s" "DEBUG_ENABLED s3 = DEBUG_ENABLED s"
    "host s3 = host s"
    by (simp_all add: s3_def s2_def split: option.splits)
  have m3: "api_motionDetectionStates s3 ch = Some True"
    using m2 by (simp add: s3_def update_ai_motion split: option.splits)
  have io: "callback_io s3 = callback_io s"
    using f3 by (intro callback_io_cong)
  show "api_motionDetectionStates (handle_event cmdId ev s) ch = Some True"
    by (simp add: H executeCallbacks_twice m3)
  show "trace (handle_event cmdId ev s) =
          trace s @ concat (map (callback_io s) (slot (extCallback s) (Some cmdId) (Some ch)))
                  @ concat (map (callback_io s) (slot (extCallback s) (Some cmdId) None))"
    by (simp add: H executeCallbacks_twice f3 io)
qed

lemma pushCallback_parse:
  "decrypt P s data lenHeader cmdId AES = Inr xml \<Longrightarrow> xml \<noteq> [] \<Longrightarrow>
     pushCallback P cmdId data lenHeader s = parseXml P cmdId xml s"
  by (simp add: pushCallback_def)

lemma parseXml_33:
  "parse_events P xml = Inr evs \<Longrightarrow> parseXml P 33 xml s = foldl (\<lambda>s ev. handle_event 33 ev s) s evs"
  by (simp add: parseXml_def)

text \<open>
  C7. For an alarm event of command 33 whose channel is a known channel and whose status
  string contains the motion marker \<^verbatim>\<open>MD\<close>, the handler leaves the motion flag of that
  channel true and calls the callbacks registered for (33, that channel) and then those
  registered for (33, any channel), and nothing else is recorded. An event with no channel
  or with a channel that is not known leaves the whole state as it is: no detection state
  changes and no callback is called. A pushed frame for command 33 that decodes to a
  non-empty body is handled as the sequence of its events.
\<close>

theorem push_motion_dispatch:
  "(event_channel ev = Some ch \<and> ch \<in> set (api_channels s) \<and> ev_status ev = Some st
      \<and> str_includes st (js ''MD'')
     \<longrightarrow> api_motionDetectionStates (handle_event 33 ev s) ch = Some True
         \<and> trace (handle_event 33 ev s) =
             trace s @ concat (map (callback_io s) (slot (extCallback s) (Some 33) (Some ch)))
                     @ concat (map (callback_io s) (slot (extCallback s) (Some 33) None)))
   \<and> (event_channel ev = None \<or> (event_channel ev = Some ch \<and> ch \<notin> set (api_channels s))
     \<longrightarrow> handle_event 33 ev s = s)
   \<and> (decrypt P s data lenHeader 33 AES = Inr xml \<and> xml \<noteq> [] \<and> parse_events P xml = Inr evs
     \<longrightarrow> pushCallback P 33 data lenHeader s = foldl (\<lambda>s ev. handle_event 33 ev s) s evs)"
  using handle_event_motion [of ev ch s st 33] handle_event_unknown [of ev ch s 33]
    handle_event_none [of ev 33 s] pushCallback_parse [of P s data lenHeader 33 xml]
    parseXml_33 [of P xml evs s]
  by auto

lemma decrypt_push_md:
  "decrypt sample_prims cam_callbacks frame_push_md 24 33 AES = Inr (js ''<?xml MD 0'')"
  by (simp add: decrypt_def decrypt_first_def decrypt_validate_def frame_push_md_def Let_def
      cam_callbacks_fields js_def toHex_def hex_digit_def slice_def readUInt32LE_def startsWith_def
      XML_PROLOGUE_def sample_prims_def)

lemma str_includes_MD: "str_includes (js ''MD'') (js ''MD'')"
  by (simp add: str_includes_def)

text \<open>Witness for C7: the pushed frame with one MD event for channel 0, on a camera that
  knows channel 0; and an event for the unknown channel 7.\<close>

theorem push_motion_dispatch_witness:
  "api_motionDetectionStates (pushCallback sample_prims 33 frame_push_md 24 cam_callbacks) 0 = Some True
   \<and> trace (pushCallback sample_prims 33 frame_push_md 24 cam_callbacks) =
       [Invoke (js ''a'') (Callback 1 (Some (js ''boom''))),
        DebugLog (callback_error_msg cam_callbacks (Exn OtherError (js ''boom''))),
        Invoke (js ''b'') (Callback 2 None),
        Invoke (js ''c'') (Callback 3 None)]
   \<and> handle_event 33 \<lparr>ev_channelId = Some 7, ev_channel = None, ev_status = Some (js ''MD''),
                        ev_AItype = None\<rparr> cam_callbacks = cam_callbacks"
proof -
  let ?ev = "\<lparr>ev_channelId = Some 0, ev_channel = None, ev_status = Some (js ''MD''),
              ev_AItype = None\<rparr>"
  let ?ev7 = "\<lparr>ev_channelId = Some 7, ev_channel = None, ev_status = Some (js ''MD''),
              ev_AItype = None\<rparr>"
  have p: "parse_events sample_prims (js ''<?xml MD 0'') = Inr [?ev]"
    by (simp add: sample_prims_def sample_events_def)
  have n: "js ''<?xml MD 0'' \<noteq> []" by (simp add: js_def)
  have a: "pushCallback sample_prims 33 frame_push_md 24 cam_callbacks
             = handle_event 33 ?ev cam_callbacks"
    using push_motion_dispatch [of ?ev 0 cam_callbacks "js ''MD''" sample_prims frame_push_md 24
        "js ''<?xml MD 0''" "[?ev]"] decrypt_push_md p n
    by simp
  have b: "api_motionDetectionStates (handle_event 33 ?ev cam_callbacks) 0 = Some True
         \<and> trace (handle_event 33 ?ev cam_callbacks) =
             trace cam_callbacks
               @ concat (map (callback_io cam_callbacks) (slot (extCallback cam_callbacks) (Some 33) (Some 0)))
               @ concat (map (callback_io cam_callbacks) (slot (extCallback cam_callbacks) (Some 33) None))"
    using push_motion_dispatch [of ?ev 0 cam_callbacks "js ''MD''" sample_prims frame_push_md 24
        "js ''<?xml MD 0''" "[?ev]"] str_includes_MD
    by (simp add: event_channel_def cam_callbacks_fields)
  have c: "handle_event 33 ?ev7 cam_callbacks = cam_callbacks"
    using push_motion_dispatch [of ?ev7 7 cam_callbacks "js ''MD''" sample_prims frame_push_md 24
        "js ''<?xml MD 0''" "[?ev]"]
    by (simp add: event_channel_def cam_callbacks_fields)
  show ?thesis
    using b c by (simp add: a cam_callbacks_slot_channel cam_callbacks_slot_any callback_io_def cam_callbacks_fields)
qed


subsection \<open>The health predicate\<close>

lemma round_even_bound: "\<bar>of_int (round_even x) - x\<bar> \<le> 1 / 2"
  unfolding round_even_def Let_def by (auto simp: abs_if) linarith+

lemma round_even_eqI: "\<bar>x - of_int m\<bar> < 1 / 2 \<Longrightarrow> round_even x = m"
proof -
  assume a: "\<bar>x - of_int m\<bar> < 1 / 2"
  have "\<bar>of_int (round_even x) - x\<bar> \<le> 1 / 2" by (rule round_even_bound)
  then have "\<bar>(of_int (round_even x) :: rat) - of_int m\<bar> < 1" using a by linarith
  then have "\<bar>(of_int (round_even x - m) :: rat)\<bar> < 1" by simp
  then have "\<bar>round_even x - m\<bar> < 1" by (metis of_int_abs of_int_less_1_iff)
  then show ?thesis by simp
qed

lemma exponent_cases:
  "exponent x = - 1074
   \<or> (- 1074 \<le> exponent x \<and> exponent x \<le> 971 \<and> 2 ^ 52 * 2 powi exponent x \<le> \<bar>x\<bar>)"
proof -
  let ?S = "insert (- 1074) {e \<in> {- 1074..971}. 2 ^ 52 * 2 powi e \<le> \<bar>x\<bar>}"
  have "finite ?S" "?S \<noteq> {}" by (auto intro: finite_subset [of _ "{- 1074..971}"])
  then have "Max ?S \<in> ?S" by (rule Max_in)
  then show ?thesis unfolding exponent_def by auto
qed

lemma exponent_le:
  assumes "\<bar>x\<bar> < 2 ^ 52 * 2 powi (e + 1)" and "- 1074 \<le> e"
  shows "exponent x \<le> e"
proof (rule ccontr)
  assume "\<not> exponent x \<le> e"
  then have g: "e + 1 \<le> exponent x" by simp
  then have "exponent x \<noteq> - 1074" using assms(2) by simp
  then have "2 ^ 52 * 2 powi exponent x \<le> \<bar>x\<bar>" using exponent_cases [of x] by auto
  moreover have "(2::rat) powi (e + 1) \<le> 2 powi exponent x"
    using g by (simp add: power_int_increasing)
  then have "(2::rat) ^ 52 * 2 powi (e + 1) \<le> 2 ^ 52 * 2 powi exponent x"
    by (intro mult_left_mono) simp_all
  ultimately show False using assms(1) by linarith
qed

lemma exponent_eqI:
  assumes "2 ^ 52 * 2 powi e \<le> \<bar>x\<bar>" and "\<bar>x\<bar> < 2 ^ 53 * 2 powi e"
    and "- 1074 \<le> e" and "e \<le> 971"
  shows "exponent x = e"
proof -
  have "(2::rat) powi (e + 1) = 2 * 2 powi e" by (simp add: power_int_add)
  then have "exponent x \<le> e" using assms(2,3) by (intro exponent_le) simp_all
  moreover have "e \<le> exponent x"
    unfolding exponent_def using assms
    by (intro Max_ge) (auto intro: finite_subset [of _ "{- 1074..971}"])
  ultimately show ?thesis by simp
qed

lemma double_eqI:
  assumes "2 ^ 52 * 2 powi e \<le> \<bar>x\<bar>" and "\<bar>x\<bar> < 2 ^ 53 * 2 powi e"
    and "- 1074 \<le> e" and "e \<le> 971" and "\<bar>x / 2 powi e - of_int m\<bar> < 1 / 2"
  shows "double x = of_int m * 2 powi e"
  using exponent_eqI [OF assms(1-4)] round_even_eqI [OF assms(5)] by (simp add: double_def)








lemma closeCallback_subscribed:
  assumes "subscribed s"
  shows "subscribed (closeCallback s)" and "\<not> eventsActive (closeCallback s)"
    and "timeConnectionLost (closeCallback s) = seconds s"
  using assms by (simp_all add: closeCallback_def seconds_def Let_def)


lemma cam_subscribed_now: "subscribed cam_subscribed" "now cam_subscribed = 500000"
  by (simp_all add: cam_subscribed_def)


lemma double_8002: "double (8002 / 1000) = 4504725527277339 / 2 ^ 49"
  by (subst double_eqI [of "- 49" _ 4504725527277339]) (simp_all add: power_int_minus_divide)

lemma double_128002: "double (128002 / 1000) = 2251834998057337 / 2 ^ 44"
  by (subst double_eqI [of "- 45" _ 4503669996114674]) (simp_all add: power_int_minus_divide)

lemma double_elapsed:
  "double (2251834998057337 / 2 ^ 44 - 4504725527277339 / 2 ^ 49) = 8444249301319681 / 2 ^ 46"
  by (subst double_eqI [of "- 46" _ 8444249301319681]) (simp_all add: power_int_minus_divide)

text \<open>Counterexample to C8 as stated: the connection of a subscribed camera is lost when the
  clock reads 8002 ms, and the events flag is set again; when the clock reads 128002 ms,
  120 s after the loss and not more, the two divisions give 128.002 and 8.002 rounded,
  their difference rounds to \<open>120 + 2 powi (- 46)\<close>, and the predicate is true.\<close>

theorem eventsActive_grace_window_counterexample:
  "subscribed (cam_subscribed\<lparr>now := 8002\<rparr>)
   \<and> timeConnectionLost ((closeCallback (cam_subscribed\<lparr>now := 8002\<rparr>))
                           \<lparr>eventsActive := True, now := 128002\<rparr>)
       = seconds (cam_subscribed\<lparr>now := 8002\<rparr>)
   \<and> (128002 - 8002 :: int) = 120 * 1000
   \<and> double (seconds ((closeCallback (cam_subscribed\<lparr>now := 8002\<rparr>))
                        \<lparr>eventsActive := True, now := 128002\<rparr>)
             - seconds (cam_subscribed\<lparr>now := 8002\<rparr>))
       = 120 + 1 / 2 ^ 46
   \<and> eventsActiveValue ((closeCallback (cam_subscribed\<lparr>now := 8002\<rparr>))
                          \<lparr>eventsActive := True, now := 128002\<rparr>)"
proof -
  let ?s = "cam_subscribed\<lparr>now := 8002\<rparr>"
  let ?s' = "(closeCallback ?s)\<lparr>eventsActive := True, now := 128002\<rparr>"
  have s: "subscribed ?s" by (simp add: cam_subscribed_now)
  have l: "timeConnectionLost ?s' = seconds ?s"
    using closeCallback_subscribed(3) [OF s] by simp
  have t0: "seconds ?s = 4504725527277339 / 2 ^ 49"
    unfolding double_8002 [symmetric] by (simp add: seconds_def)
  have t1: "seconds ?s' = 2251834998057337 / 2 ^ 44"
    unfolding double_128002 [symmetric] by (simp add: seconds_def)
  have d: "double (seconds ?s' - seconds ?s) = 120 + 1 / 2 ^ 46"
    unfolding t0 t1 double_elapsed by simp
  have e: "eventsActiveValue ?s'"
    unfolding eventsActiveValue_def l d by simp
  show ?thesis using s l d e by simp
qed

subsection \<open>What network activity keeps\<close>

lemma keeps_refl [simp]: "keeps s s"
  by (simp add: keeps_def)

lemma keeps_trans: "keeps s s1 \<Longrightarrow> keeps s1 s2 \<Longrightarrow> keeps s s2"
  by (auto simp: keeps_def)

lemma keeps_debugLog [simp]: "keeps s (debugLog m s)"
  by (simp add: keeps_def debugLog_def)

lemma keeps_executeCallbacks [simp]: "keeps s (executeCallbacks c ch s)"
  by (subst executeCallbacks_trace) (simp add: keeps_def)

lemma keeps_mark_events_active [simp]: "keeps s (mark_events_active s)"
  by (simp add: keeps_def mark_events_active_def)

lemma keeps_update_status [simp]: "keeps s (update_status ch st s)"
  by (simp add: keeps_def update_status_def)

lemma keeps_update_ai [simp]: "keeps s (update_ai ch ai s)"
  by (simp add: keeps_def update_ai_def Let_def split: option.splits)

lemma keeps_then:
  "keeps s s' \<Longrightarrow> keeps s (executeCallbacks c ch s')"
  "keeps s s' \<Longrightarrow> keeps s (update_ai n ai s')"
  "keeps s s' \<Longrightarrow> keeps s (update_status n st s')"
  "keeps s s' \<Longrightarrow> keeps s (mark_events_active s')"
  by (erule keeps_trans, simp)+

lemma keeps_handle_event [simp]: "keeps s (handle_event c ev s)"
  by (auto simp: handle_event_def Let_def split: option.splits intro!: keeps_then)

lemma keeps_foldl:
  assumes "\<And>x s. keeps s (f s x)"
  shows "keeps s (foldl f s xs)"
proof (induction xs arbitrary: s)
  case Nil
  show ?case by simp
next
  case (Cons x xs)
  show ?case using assms [of s x] Cons.IH [of "f s x"] by (auto intro: keeps_trans)
qed

lemma keeps_parseXml [simp]: "keeps s (parseXml P c xml s)"
  by (auto simp: parseXml_def split: sum.splits intro: keeps_foldl)

lemma keeps_pushCallback [simp]: "keeps s (pushCallback P c d l s)"
  by (auto simp: pushCallback_def split: sum.splits)

lemma keeps_closeCallback [simp]: "keeps s (closeCallback s)"
  by (simp add: keeps_def closeCallback_def Let_def)






declare send_with.simps [simp del]



lemma send_with_failure:
  "before_await lg P a s = (Inr m, s1) \<Longrightarrow> await_response P s1 = (Inl err, s2)
    \<Longrightarrow> send_with lg P a s =
        (if catch_policy err (arg_retry a - 1) (arg_cmdId a) = Rethrow then (Inl err, s2)
         else send_with lg P (a\<lparr>arg_messId := Some m, arg_retry := arg_retry a - 1\<rparr>)
                (after_catch (catch_policy err (arg_retry a - 1) (arg_cmdId a)) s2))"
  by (subst send_with.simps) (simp split: decision.splits)





lemma keeps_parseDeviceInfo [simp]: "keeps s (parseDeviceInfo di s)"
  by (auto simp: parseDeviceInfo_def keeps_def Let_def split: option.splits)



















subsection \<open>The header of a request\<close>

lemma utf8_encode_ascii:
  "\<forall>u \<in> set xs. unat u < 128 \<Longrightarrow> utf8_encode xs = map (\<lambda>u. of_nat (unat u)) xs"
  by (induction xs rule: utf8_encode.induct) (auto simp: utf8_unit_def)

lemma length_le32 [simp]: "length (le32 v) = 4"
  by (simp add: le32_def)

lemma build_header_1464:
  "build_header s c l m off (js ''1464'') = Inr header \<Longrightarrow>
     header = [0xf0, 0xde, 0xbc, 0x0a] @ le32 c @ le32 l @ le32 m @ [0, 0, 0x14, 0x64] @ le32 off"
  by (auto simp: build_header_def writeUInt32LE_def js_def split: if_splits)

lemma prepare_header_1464:
  assumes "arg_messageClass a = js ''1464''" and "prepare P s a = Inr (m, header, enc)"
  shows "\<exists>ext. resolve_ext P s a = Inr ext \<and> m = resolve_messId a
           \<and> header = [0xf0, 0xde, 0xbc, 0x0a] @ le32 (arg_cmdId a)
                        @ le32 (length ext + length (arg_body a)) @ le32 m
                        @ [0, 0, 0x14, 0x64] @ le32 (length ext)
           \<and> length header = 24
           \<and> encrypt_payload P s (arg_encType a) ext (arg_body a) m = Inr enc"
proof -
  from assms(2) obtain ext where e: "resolve_ext P s a = Inr ext"
    by (cases "resolve_ext P s a") (auto simp: prepare_def Let_def)
  from assms(2) e have h: "build_header s (arg_cmdId a) (length ext + length (arg_body a))
       (resolve_messId a) (length ext) (js ''1464'') = Inr header"
    and m: "m = resolve_messId a"
    and p: "encrypt_payload P s (arg_encType a) ext (arg_body a) (resolve_messId a) = Inr enc"
    by (auto simp: prepare_def Let_def assms(1) split: sum.splits)
  have "header = [0xf0, 0xde, 0xbc, 0x0a] @ le32 (arg_cmdId a)
                        @ le32 (length ext + length (arg_body a)) @ le32 m
                        @ [0, 0, 0x14, 0x64] @ le32 (length ext)"
    using build_header_1464 [OF h] m by simp
  then show ?thesis using e m p by simp
qed

lemma utf8_encode_ascii_length:
  "\<forall>u \<in> set xs. unat u < 128 \<Longrightarrow> length (utf8_encode xs) = length xs"
  by (simp add: utf8_encode_ascii)

lemma encrypt_payload_ascii_length:
  assumes "\<forall>key b. length (aes_cfb_encrypt P key b) = length b"
    and "\<forall>u \<in> set ext \<union> set body. unat u < 128"
    and "encrypt_payload P s AES ext body m = Inr enc"
  shows "length enc = length ext + length body"
proof -
  have l: "length x = length t" if "aesEncrypt P s t = Inr x" "\<forall>u \<in> set t. unat u < 128" for t x
    using that assms(1)
    by (auto simp: aesEncrypt_def utf8_encode_ascii_length split: if_splits option.splits)
  show ?thesis
    using assms(2,3) l [of ext] l [of body]
    by (auto simp: encrypt_payload_def split: if_splits sum.splits)
qed

text \<open>
  C3. The header of a request of class 1464 has the 24 bytes of the layout: the magic
  f0debc0a, then commandId, payload length and sequence number as little-endian 32-bit
  values, two zero bytes, the class tag 1464 and the payload offset. Its two length fields
  are the lengths of the strings in code units, \<^verbatim>\<open>ext.length + body.length\<close> and
  \<^verbatim>\<open>ext.length\<close>. Under AES, with a cipher that keeps the length as CFB does, they are
  the lengths of the encrypted extension and body when both strings are ASCII. They are not
  for other strings: for the logout command with the one-character body U+00E9 (one code
  unit, two bytes in UTF-8), whatever the key, the payload length field says 1 and the
  encrypted body that follows has 2 bytes.
\<close>

theorem send_header_length_mismatch:
  "(arg_messageClass a = js ''1464'' \<and> prepare P s a = Inr (m, header, enc)
     \<longrightarrow> (\<exists>ext. resolve_ext P s a = Inr ext
            \<and> header = [0xf0, 0xde, 0xbc, 0x0a] @ le32 (arg_cmdId a)
                         @ le32 (length ext + length (arg_body a)) @ le32 (resolve_messId a)
                         @ [0, 0, 0x14, 0x64] @ le32 (length ext)
            \<and> length header = 24
            \<and> ((\<forall>key b. length (aes_cfb_encrypt P key b) = length b) \<and> arg_encType a = AES
                 \<and> (\<forall>u \<in> set ext \<union> set (arg_body a). unat u < 128)
               \<longrightarrow> length enc = length ext + length (arg_body a))))
   \<and> (aesKey s = Some k \<and> (\<forall>key b. length (aes_cfb_encrypt P key b) = length b)
     \<longrightarrow> prepare P s ((send_defaults 2)\<lparr>arg_body := [0xE9]\<rparr>)
           = Inr (250,
                  [0xf0, 0xde, 0xbc, 0x0a, 2, 0, 0, 0, 1, 0, 0, 0, 0xfa, 0, 0, 0, 0, 0, 0x14, 0x64,
                   0, 0, 0, 0],
                  aes_cfb_encrypt P k [0xC3, 0xA9])
         \<and> length (aes_cfb_encrypt P k [0xC3, 0xA9]) = 2
         \<and> readUInt32LE [0xf0, 0xde, 0xbc, 0x0a, 2, 0, 0, 0, 1, 0, 0, 0, 0xfa, 0, 0, 0, 0, 0,
                          0x14, 0x64, 0, 0, 0, 0] 8 = Inr 1)"
proof -
  have A: "\<exists>ext. resolve_ext P s a = Inr ext
            \<and> header = [0xf0, 0xde, 0xbc, 0x0a] @ le32 (arg_cmdId a)
                         @ le32 (length ext + length (arg_body a)) @ le32 (resolve_messId a)
                         @ [0, 0, 0x14, 0x64] @ le32 (length ext)
            \<and> length header = 24
            \<and> ((\<forall>key b. length (aes_cfb_encrypt P key b) = length b) \<and> arg_encType a = AES
                 \<and> (\<forall>u \<in> set ext \<union> set (arg_body a). unat u < 128)
               \<longrightarrow> length enc = length ext + length (arg_body a))"
    if c: "arg_messageClass a = js ''1464''" and p: "prepare P s a = Inr (m, header, enc)"
  proof -
    from prepare_header_1464 [OF c p] obtain ext where
      e: "resolve_ext P s a = Inr ext" and m: "m = resolve_messId a"
      and h: "header = [0xf0, 0xde, 0xbc, 0x0a] @ le32 (arg_cmdId a)
                        @ le32 (length ext + length (arg_body a)) @ le32 m
                        @ [0, 0, 0x14, 0x64] @ le32 (length ext)"
      and l: "length header = 24"
      and q: "encrypt_payload P s (arg_encType a) ext (arg_body a) m = Inr enc"
      by blast
    have "length enc = length ext + length (arg_body a)"
      if "\<forall>key b. length (aes_cfb_encrypt P key b) = length b" "arg_encType a = AES"
        "\<forall>u \<in> set ext \<union> set (arg_body a). unat u < 128"
      using encrypt_payload_ascii_length [OF that(1) that(3)] q that(2) by simp
    then show ?thesis using e h l m by blast
  qed
  have B: "prepare P s ((send_defaults 2)\<lparr>arg_body := [0xE9]\<rparr>)
           = Inr (250,
                  [0xf0, 0xde, 0xbc, 0x0a, 2, 0, 0, 0, 1, 0, 0, 0, 0xfa, 0, 0, 0, 0, 0, 0x14, 0x64,
                   0, 0, 0, 0],
                  aes_cfb_encrypt P k [0xC3, 0xA9])
         \<and> length (aes_cfb_encrypt P k [0xC3, 0xA9]) = 2
         \<and> readUInt32LE [0xf0, 0xde, 0xbc, 0x0a, 2, 0, 0, 0, 1, 0, 0, 0, 0xfa, 0, 0, 0, 0, 0,
                          0x14, 0x64, 0, 0, 0, 0] 8 = Inr 1"
    if "aesKey s = Some k" "\<forall>key b. length (aes_cfb_encrypt P key b) = length b"
    using that
    by (simp add: prepare_def resolve_messId_def resolve_ext_def build_header_def
        encrypt_payload_def writeUInt32LE_def le32_def aesEncrypt_def send_defaults_def Let_def
        utf8_unit_def readUInt32LE_def js_def)
  show ?thesis using A B by blast
qed

text \<open>Witness for C3: on the logged-in camera with the stand-in cipher, the request with the
  body U+00E9 and the request with the ASCII body \<^verbatim>\<open>ok\<close>.\<close>

theorem send_header_length_mismatch_witness:
  "prepare sample_prims cam_logged_in ((send_defaults 2)\<lparr>arg_body := [0xE9]\<rparr>)
     = Inr (250,
            [0xf0, 0xde, 0xbc, 0x0a, 2, 0, 0, 0, 1, 0, 0, 0, 0xfa, 0, 0, 0, 0, 0, 0x14, 0x64,
             0, 0, 0, 0],
            [0xD3, 0xB9])
   \<and> prepare sample_prims cam_logged_in ((send_defaults 2)\<lparr>arg_body := js ''ok''\<rparr>)
     = Inr (250,
            [0xf0, 0xde, 0xbc, 0x0a, 2, 0, 0, 0, 2, 0, 0, 0, 0xfa, 0, 0, 0, 0, 0, 0x14, 0x64,
             0, 0, 0, 0],
            [0x7f, 0x7b])
   \<and> length [0x7f, 0x7b :: byte] = length ([] :: jsstring) + length (js ''ok'')"
proof -
  let ?h = "[0xf0, 0xde, 0xbc, 0x0a, 2, 0, 0, 0, 2, 0, 0, 0, 0xfa, 0, 0, 0, 0, 0, 0x14, 0x64,
             0, 0, 0, 0] :: buffer"
  let ?a = "(send_defaults 2)\<lparr>arg_body := js ''ok''\<rparr>"
  have k: "aesKey cam_logged_in = Some (utf8_encode (js ''0123456789abcdef''))"
    by (simp add: cam_logged_in_def)
  have l: "\<forall>key b. length (aes_cfb_encrypt sample_prims key b) = length b"
    by (simp add: sample_prims_def)
  have e: "aes_cfb_encrypt sample_prims (utf8_encode (js ''0123456789abcdef'')) [0xC3, 0xA9]
             = [0xD3, 0xB9]"
    by (simp add: sample_prims_def js_def utf8_unit_def)
  have p: "prepare sample_prims cam_logged_in ?a = Inr (250, ?h, [0x7f, 0x7b])"
    by (simp add: prepare_def resolve_messId_def resolve_ext_def build_header_def
        encrypt_payload_def writeUInt32LE_def le32_def aesEncrypt_def send_defaults_def Let_def
        utf8_unit_def js_def cam_logged_in_def sample_prims_def)
  have c: "arg_messageClass ?a = js ''1464''" "arg_encType ?a = AES"
    "resolve_ext sample_prims cam_logged_in ?a = Inr []" "arg_body ?a = js ''ok''"
    by (simp_all add: send_defaults_def resolve_ext_def)
  have u: "\<forall>u \<in> set ([] :: jsstring) \<union> set (js ''ok''). unat u < 128"
    by (simp add: js_def)
  note T = send_header_length_mismatch [of ?a sample_prims cam_logged_in 250 ?h "[0x7f, 0x7b]"
      "utf8_encode (js ''0123456789abcdef'')"]
  have x: "length [0x7f, 0x7b :: byte] = length ([] :: jsstring) + length (js ''ok'')"
    using T c p l u by auto
  have y: "prepare sample_prims cam_logged_in ((send_defaults 2)\<lparr>arg_body := [0xE9]\<rparr>)
     = Inr (250,
            [0xf0, 0xde, 0xbc, 0x0a, 2, 0, 0, 0, 1, 0, 0, 0, 0xfa, 0, 0, 0, 0, 0, 0x14, 0x64,
             0, 0, 0, 0],
            [0xD3, 0xB9])"
    using T k l by (simp add: e)
  show ?thesis using x y p by blast
qed

subsection \<open>The retry policy\<close>

lemma before_await_messId:
  "before_await lg P a s = (Inr m, s1) \<Longrightarrow> m = resolve_messId a"
  by (auto simp: before_await_def prepare_def Let_def split: prod.splits option.splits sum.splits if_splits)

lemma prepare_retry_args:
  "prepare P s (a\<lparr>arg_messId := Some (resolve_messId a), arg_retry := r\<rparr>) = prepare P s a"
proof -
  let ?a = "a\<lparr>arg_messId := Some (resolve_messId a), arg_retry := r\<rparr>"
  have m: "resolve_messId ?a = resolve_messId a"
    by (simp add: resolve_messId_def split: option.splits)
  have e: "resolve_ext P s ?a = resolve_ext P s a"
    by (simp add: resolve_ext_def split: option.splits)
  show ?thesis
    unfolding prepare_def m e by (simp add: Let_def split: sum.splits)
qed

lemma catch_policy_cases:
  "catch_policy err (r - 1) c =
     (if cls err = ApiError 400 then (if r > 1 then RetryAfterDelay else Rethrow)
      else if (cls err = ReolinkTimeoutError \<or> str_includes (message err) (js ''Connection''))
              \<and> c \<noteq> 2 \<and> r > 1
      then RetryNow else Rethrow)"
  by (auto simp: catch_policy_def)

text \<open>
  C2 (as amended). When a call of \<^verbatim>\<open>send\<close> has written its frame and the wait for the
  response fails with an error, then: a busy status (ApiError 400) is retried after a
  sleep of 1500 ms if the budget is not exhausted, for any command, the logout command
  included; a TimeoutError, or any error whose message contains \<^verbatim>\<open>Connection\<close>, is retried
  at once if the budget is not exhausted and the command is not the logout command 2; in
  every other case the error is thrown to the caller. The budget is exhausted when the
  \<^verbatim>\<open>retry\<close> argument is 1 or less, so the default 3 allows three attempts. A retry is a
  call of \<^verbatim>\<open>send\<close> with the same arguments, the sequence number now given as the one the
  first call resolved, and the budget less one; it prepares the same frame.
\<close>

theorem send_retry_policy:
  "before_await (login P) P a s = (Inr m, s1) \<and> await_response P s1 = (Inl err, s2)
   \<longrightarrow> m = resolve_messId a
       \<and> send P a s =
           (case catch_policy err (arg_retry a - 1) (arg_cmdId a) of
              Rethrow \<Rightarrow> (Inl err, s2)
            | RetryNow \<Rightarrow> send P (a\<lparr>arg_messId := Some m, arg_retry := arg_retry a - 1\<rparr>) s2
            | RetryAfterDelay \<Rightarrow>
                send P (a\<lparr>arg_messId := Some m, arg_retry := arg_retry a - 1\<rparr>) (sleep 1500 s2))
       \<and> catch_policy err (arg_retry a - 1) (arg_cmdId a) =
           (if cls err = ApiError 400
            then (if arg_retry a > 1 then RetryAfterDelay else Rethrow)
            else if (cls err = ReolinkTimeoutError
                     \<or> str_includes (message err) (js ''Connection''))
                    \<and> arg_cmdId a \<noteq> 2 \<and> arg_retry a > 1
            then RetryNow else Rethrow)
       \<and> (\<forall>s'. prepare P s' (a\<lparr>arg_messId := Some m, arg_retry := arg_retry a - 1\<rparr>)
                 = prepare P s' a)"
proof (intro impI, elim conjE)
  assume b: "before_await (login P) P a s = (Inr m, s1)"
    and w: "await_response P s1 = (Inl err, s2)"
  have m: "m = resolve_messId a" using b by (rule before_await_messId)
  have s: "send P a s =
           (case catch_policy err (arg_retry a - 1) (arg_cmdId a) of
              Rethrow \<Rightarrow> (Inl err, s2)
            | RetryNow \<Rightarrow> send P (a\<lparr>arg_messId := Some m, arg_retry := arg_retry a - 1\<rparr>) s2
            | RetryAfterDelay \<Rightarrow>
                send P (a\<lparr>arg_messId := Some m, arg_retry := arg_retry a - 1\<rparr>) (sleep 1500 s2))"
    unfolding send_def
    by (subst send_with_failure [OF b w]) (simp add: after_catch_def split: decision.splits)
  have p: "\<forall>s'. prepare P s' (a\<lparr>arg_messId := Some m, arg_retry := arg_retry a - 1\<rparr>)
                 = prepare P s' a"
    unfolding m by (simp add: prepare_retry_args)
  show "m = resolve_messId a
       \<and> send P a s =
           (case catch_policy err (arg_retry a - 1) (arg_cmdId a) of
              Rethrow \<Rightarrow> (Inl err, s2)
            | RetryNow \<Rightarrow> send P (a\<lparr>arg_messId := Some m, arg_retry := arg_retry a - 1\<rparr>) s2
            | RetryAfterDelay \<Rightarrow>
                send P (a\<lparr>arg_messId := Some m, arg_retry := arg_retry a - 1\<rparr>) (sleep 1500 s2))
       \<and> catch_policy err (arg_retry a - 1) (arg_cmdId a) =
           (if cls err = ApiError 400
            then (if arg_retry a > 1 then RetryAfterDelay else Rethrow)
            else if (cls err = ReolinkTimeoutError
                     \<or> str_includes (message err) (js ''Connection''))
                    \<and> arg_cmdId a \<noteq> 2 \<and> arg_retry a > 1
            then RetryNow else Rethrow)
       \<and> (\<forall>s'. prepare P s' (a\<lparr>arg_messId := Some m, arg_retry := arg_retry a - 1\<rparr>)
                 = prepare P s' a)"
    using m s p catch_policy_cases [of err "arg_retry a" "arg_cmdId a"] by blast
qed

lemma cam_logged_in_fields:
  "loggedIn cam_logged_in" "transport cam_logged_in = Some (Socket False)" "protocol cam_logged_in"
  "aesKey cam_logged_in = Some (utf8_encode (js ''0123456789abcdef''))"
  "connects cam_logged_in = []" "responses cam_logged_in = []" "trace cam_logged_in = []"
  "now cam_logged_in = 0" "host cam_logged_in = js ''cam''" "\<not> subscribed cam_logged_in"
  "\<not> DEBUG_ENABLED cam_logged_in" "username cam_logged_in = js ''admin''"
  "password cam_logged_in = js ''secret''"
  by (simp_all add: cam_logged_in_def cam0_def init_state_def)

lemmas send_eval = prepare_def resolve_messId_def resolve_ext_def
  build_header_def encrypt_payload_def writeUInt32LE_def le32_def aesEncrypt_def send_defaults_def
  RETRY_ATTEMPTS_def Let_def utf8_unit_def send_def
  send_with.simps before_await_def connectIfNeeded_def await_response_def catch_policy_def
  after_catch_def sleep_def TIMEOUT_def js_def str_includes_def

text \<open>Witness for C2: on a logged-in camera whose network is silent, the keepalive command
  is written three times and then fails with the TimeoutError; the logout command is
  written once.\<close>

theorem send_retry_policy_witness:
  "fst (send sample_prims (send_defaults 93) cam_logged_in)
     = Inl (Exn ReolinkTimeoutError (hostmsg cam_logged_in (js ''Timeout'')))
   \<and> trace (snd (send sample_prims (send_defaults 93) cam_logged_in))
       = [Write frame93, Write frame93, Write frame93]
   \<and> fst (send sample_prims (send_defaults 2) cam_logged_in)
       = Inl (Exn ReolinkTimeoutError (hostmsg cam_logged_in (js ''Timeout'')))
   \<and> length (trace (snd (send sample_prims (send_defaults 2) cam_logged_in))) = 1"
proof -
  let ?s1 = "cam_logged_in\<lparr>trace := [Write frame93]\<rparr>"
  let ?s2 = "cam_logged_in\<lparr>trace := [Write frame93], now := 30000\<rparr>"
  let ?e = "Exn ReolinkTimeoutError (hostmsg cam_logged_in (js ''Timeout''))"
  let ?a = "(send_defaults 93)\<lparr>arg_messId := Some 250, arg_retry := arg_retry (send_defaults 93) - 1\<rparr>"
  have b: "before_await (login sample_prims) sample_prims (send_defaults 93) cam_logged_in
             = (Inr 250, ?s1)"
    by (simp add: send_eval cam_logged_in_fields frame93_def)
  have w: "await_response sample_prims ?s1 = (Inl ?e, ?s2)"
    by (simp add: await_response_def cam_logged_in_fields TIMEOUT_def hostmsg_def)
  have c: "catch_policy ?e (arg_retry (send_defaults 93) - 1) (arg_cmdId (send_defaults 93)) = RetryNow"
    by (simp add: catch_policy_def send_defaults_def RETRY_ATTEMPTS_def)
  have r: "send sample_prims (send_defaults 93) cam_logged_in = send sample_prims ?a ?s2"
    using send_retry_policy [of sample_prims "send_defaults 93" cam_logged_in 250 ?s1 ?e ?s2] b w
    by (simp add: c)
  have f: "fst (send sample_prims ?a ?s2) = Inl ?e"
    by (simp add: send_eval cam_logged_in_fields hostmsg_def)
  have t: "trace (snd (send sample_prims ?a ?s2)) = [Write frame93, Write frame93, Write frame93]"
    by (simp add: send_eval cam_logged_in_fields frame93_def)
  have g: "fst (send sample_prims (send_defaults 2) cam_logged_in) = Inl ?e"
    by (simp add: send_eval cam_logged_in_fields hostmsg_def)
  have h: "length (trace (snd (send sample_prims (send_defaults 2) cam_logged_in))) = 1"
    by (simp add: send_eval cam_logged_in_fields)
  show ?thesis using f t g h by (simp add: r)
qed

text \<open>Counterexample to C2 as stated: the device answers busy four times. The policy of the
  specification retries a busy status whatever the budget; \<^verbatim>\<open>send\<close> makes three attempts
  with two sleeps, throws the busy status and leaves the fourth answer unread.\<close>

theorem send_retry_policy_counterexample:
  "spec_retry_policy (Exn (ApiError 400) (js ''API error 400'')) 0 93 = RetryAfterDelay
   \<and> catch_policy (Exn (ApiError 400) (js ''API error 400'')) 0 93 = Rethrow
   \<and> fst (send sample_prims (send_defaults 93)
             (cam_logged_in\<lparr>responses := [busy, busy, busy, busy]\<rparr>))
       = Inl (Exn (ApiError 400) (js ''API error 400''))
   \<and> responses (snd (send sample_prims (send_defaults 93)
                        (cam_logged_in\<lparr>responses := [busy, busy, busy, busy]\<rparr>))) = [busy]
   \<and> trace (snd (send sample_prims (send_defaults 93)
                    (cam_logged_in\<lparr>responses := [busy, busy, busy, busy]\<rparr>)))
       = [Write frame93, Sleep 1500, Write frame93, Sleep 1500, Write frame93]"
proof -
  have a: "spec_retry_policy (Exn (ApiError 400) (js ''API error 400'')) 0 93 = RetryAfterDelay"
    by (simp add: spec_retry_policy_def)
  have b: "catch_policy (Exn (ApiError 400) (js ''API error 400'')) 0 93 = Rethrow"
    by (simp add: catch_policy_def str_includes_def js_def)
  have c: "fst (send sample_prims (send_defaults 93)
             (cam_logged_in\<lparr>responses := [busy, busy, busy, busy]\<rparr>))
       = Inl (Exn (ApiError 400) (js ''API error 400''))"
    by (simp add: send_eval cam_logged_in_fields busy_def)
  have d: "responses (snd (send sample_prims (send_defaults 93)
                        (cam_logged_in\<lparr>responses := [busy, busy, busy, busy]\<rparr>))) = [busy]"
    by (simp add: send_eval cam_logged_in_fields busy_def)
  have e: "trace (snd (send sample_prims (send_defaults 93)
                    (cam_logged_in\<lparr>responses := [busy, busy, busy, busy]\<rparr>)))
       = [Write frame93, Sleep 1500, Write frame93, Sleep 1500, Write frame93]"
    by (simp add: send_eval cam_logged_in_fields busy_def frame93_def)
  show ?thesis using a b c d e by blast
qed

subsection \<open>The AES key\<close>










lemma decimal_sample: "decimal 123456789012345 = js ''123456789012345''"
  by (simp add: js_def)



subsection \<open>Logout\<close>

lemma close_protocol_trace: "trace (close_protocol s) = trace s @ [Close]"
  by (simp add: close_protocol_def closeCallback_def Let_def)

lemma debugLog_trace:
  "trace (debugLog m s) = trace s @ (if DEBUG_ENABLED s then [DebugLog m] else [])"
  by (simp add: debugLog_def)

text \<open>
  C5 (as amended). While subscribed, \<^verbatim>\<open>logout\<close> changes nothing: nothing is written, the
  socket is not closed, the session state stays. When not subscribed it ends with the
  session logged out, the events flag off, the socket and protocol handle dropped and the
  nonce, the AES key and both credential hashes cleared; it sends the logout command and
  closes the socket only if the client is logged in and has a socket and a protocol handle,
  and otherwise does nothing to the outside. In that case the record of what it did is that
  of its \<^verbatim>\<open>send\<close> of the logout command, then the debug message if that failed with a
  protocol error (and debugging is on), then the close; and on a live socket the first
  thing the \<^verbatim>\<open>send\<close> does, once the frame is prepared, is to write it.
\<close>

theorem logout_guard:
  "(subscribed s \<longrightarrow> logout P s = s)
   \<and> (\<not> subscribed s \<longrightarrow>
        \<not> loggedIn (logout P s) \<and> nonce (logout P s) = None \<and> aesKey (logout P s) = None
        \<and> userHash (logout P s) = None \<and> passwordHash (logout P s) = None
        \<and> transport (logout P s) = None \<and> \<not> protocol (logout P s)
        \<and> \<not> eventsActive (logout P s))
   \<and> (\<not> subscribed s \<and> \<not> (loggedIn s \<and> transport s \<noteq> None \<and> protocol s)
      \<longrightarrow> trace (logout P s) = trace s)
   \<and> (\<not> subscribed s \<and> loggedIn s \<and> transport s \<noteq> None \<and> protocol s
      \<longrightarrow> trace (logout P s) =
            trace (snd (send P (logout_args P s) s))
            @ logout_failure_log (fst (send P (logout_args P s) s))
                (snd (send P (logout_args P s) s))
            @ [Close])
   \<and> (\<not> subscribed s \<and> loggedIn s \<and> transport s = Some (Socket False) \<and> protocol s
        \<and> prepare P s (logout_args P s) = Inr (m, h, e)
      \<longrightarrow> before_await (login P) P (logout_args P s) s
            = (Inr m, s\<lparr>trace := trace s @ [Write (h @ e)]\<rparr>))"
proof -
  have c1: "subscribed s \<longrightarrow> logout P s = s" by (simp add: logout_def)
  have c2: "\<not> subscribed s \<longrightarrow>
        \<not> loggedIn (logout P s) \<and> nonce (logout P s) = None \<and> aesKey (logout P s) = None
        \<and> userHash (logout P s) = None \<and> passwordHash (logout P s) = None
        \<and> transport (logout P s) = None \<and> \<not> protocol (logout P s)
        \<and> \<not> eventsActive (logout P s)"
    by (simp add: logout_def Let_def)
  have c3: "\<not> subscribed s \<and> \<not> (loggedIn s \<and> transport s \<noteq> None \<and> protocol s)
      \<longrightarrow> trace (logout P s) = trace s"
    by (auto simp: logout_def Let_def)
  obtain r sa where e: "send P (logout_args P s) s = (r, sa)" by fastforce
  have c4: "\<not> subscribed s \<and> loggedIn s \<and> transport s \<noteq> None \<and> protocol s
      \<longrightarrow> trace (logout P s) =
            trace (snd (send P (logout_args P s) s))
            @ logout_failure_log (fst (send P (logout_args P s) s))
                (snd (send P (logout_args P s) s))
            @ [Close]"
    by (cases r)
       (auto simp: logout_def Let_def e close_protocol_trace debugLog_trace logout_failure_log_def)
  have c5: "\<not> subscribed s \<and> loggedIn s \<and> transport s = Some (Socket False) \<and> protocol s
        \<and> prepare P s (logout_args P s) = Inr (m, h, e)
      \<longrightarrow> before_await (login P) P (logout_args P s) s
            = (Inr m, s\<lparr>trace := trace s @ [Write (h @ e)]\<rparr>)"
    by (simp add: before_await_def connectIfNeeded_def)
  show ?thesis using c1 c2 c3 c4 c5 by blast
qed

lemma cam_subscribed_sub: "subscribed cam_subscribed"
  by (simp add: cam_subscribed_def)

text \<open>Witness for C5: the subscribed camera is left as it is; the logged-in camera on a silent
  network writes the logout frame, closes the socket and ends with its secrets cleared; the
  fresh camera does nothing to the outside.\<close>

theorem logout_guard_witness:
  "logout sample_prims cam_subscribed = cam_subscribed
   \<and> \<not> loggedIn (logout sample_prims cam_logged_in)
   \<and> nonce (logout sample_prims cam_logged_in) = None
   \<and> aesKey (logout sample_prims cam_logged_in) = None
   \<and> userHash (logout sample_prims cam_logged_in) = None
   \<and> passwordHash (logout sample_prims cam_logged_in) = None
   \<and> length (trace (logout sample_prims cam_logged_in)) = 2
   \<and> last (trace (logout sample_prims cam_logged_in)) = Close
   \<and> trace (logout sample_prims cam0) = []"
proof -
  note g = logout_guard [of cam_logged_in sample_prims]
  have n: "\<not> subscribed cam_logged_in \<and> loggedIn cam_logged_in \<and> transport cam_logged_in \<noteq> None
            \<and> protocol cam_logged_in"
    by (simp add: cam_logged_in_fields)
  have f: "fst (send sample_prims (logout_args sample_prims cam_logged_in) cam_logged_in)
             = Inl (Exn ReolinkTimeoutError (hostmsg cam_logged_in (js ''Timeout'')))"
    by (simp add: send_eval logout_args_def cam_logged_in_fields hostmsg_def sample_prims_def)
  have d: "\<not> DEBUG_ENABLED (snd (send sample_prims (logout_args sample_prims cam_logged_in) cam_logged_in))"
    by (simp add: send_eval logout_args_def cam_logged_in_fields sample_prims_def)
  have t: "length (trace (snd (send sample_prims (logout_args sample_prims cam_logged_in) cam_logged_in))) = 1"
    by (simp add: send_eval logout_args_def cam_logged_in_fields sample_prims_def)
  have T: "trace (logout sample_prims cam_logged_in) =
            trace (snd (send sample_prims (logout_args sample_prims cam_logged_in) cam_logged_in)) @ [Close]"
    using g n by (simp add: f logout_failure_log_def d)
  have z: "trace (logout sample_prims cam0) = []"
    using logout_guard [of cam0 sample_prims] by (simp add: cam0_def init_state_def)
  show ?thesis
    using logout_guard [of cam_subscribed sample_prims] cam_subscribed_sub g n z
    by (simp add: T t)
qed

text \<open>Counterexample to C5 as stated: a camera with a live socket that is not logged in and
  not subscribed. \<^verbatim>\<open>logout\<close> sends no logout command and does not close the socket; it
  drops the handle.\<close>

theorem logout_guard_counterexample:
  "\<not> subscribed cam_connected \<and> transport cam_connected = Some (Socket False)
   \<and> trace (logout sample_prims cam_connected) = []
   \<and> transport (logout sample_prims cam_connected) = None"
  by (simp add: logout_def cam_connected_def cam0_def init_state_def)

subsection \<open>The subscription invariant\<close>












subsection \<open>The login mutex\<close>

lemmas login_eval_simps = login_run_def login_step_def login_cfg0_def settle_def Let_def

text \<open>
  C9. Two calls of \<^verbatim>\<open>login\<close> made in the same tick both await the initial, already
  resolved promise before either has replaced it; each is resumed in turn, stores a promise
  of its own, finds the client not logged in and begins a handshake: two handshakes are
  in flight at once. Only a caller that arrives after the first caller was resumed waits
  for the first caller's promise, and then, if that handshake succeeded, returns without
  one of its own.
\<close>

theorem login_mutex_same_tick:
  "lc_handshakes (login_run [Call 0, Call 1, Tick, Tick] login_cfg0) = [0, 1]
   \<and> lc_pc (login_run [Call 0, Call 1, Tick, Tick] login_cfg0) 0 = Handshake 1
   \<and> lc_pc (login_run [Call 0, Call 1, Tick, Tick] login_cfg0) 1 = Handshake 2
   \<and> lc_handshakes (login_run [Call 0, Tick, Call 1, Tick, Finish 0 True, Tick] login_cfg0) = [0]
   \<and> lc_pc (login_run [Call 0, Tick, Call 1, Tick, Finish 0 True, Tick] login_cfg0) 0
       = Returned True
   \<and> lc_pc (login_run [Call 0, Tick, Call 1, Tick, Finish 0 True, Tick] login_cfg0) 1
       = Returned True"
  by (simp add: login_eval_simps)

end
